theory Spec2Isabelle
  imports Main "HOL-Library.Word"
begin

unbundle bit_operations_syntax

section \<open>The machine: registers, stack memory and the trace of visible operations\<close>

text \<open>
  The kernel is i386 code: registers and addresses are 32 bits wide, segment selectors
  16 bits. Memory is read and written one doubleword at a time at a byte address; every
  access below is relative to the stack pointer at a multiple of 4, so no two accesses
  overlap partially.
\<close>

type_synonym addr = "32 word"

datatype sreg = DS | ES | FS | GS

text \<open>
  The operations that are visible outside the routine, in the order they happen: loads of
  segment registers, stack writes, the calls to the external routines \<open>pic_EOI\<close> and
  \<open>process_exit\<close>, \<open>sti\<close>, the software interrupt and \<open>iret\<close>. A load, a stack
  write and \<open>sti\<close> are recorded when they have taken effect; \<open>Iret\<close> is recorded when
  \<open>iret\<close> is reached, whether it then completes or stops.
\<close>

datatype event =
    SegLoad sreg "16 word"
  | Push "32 word"
  | PicEOI "32 word"
  | Sti
  | Iret
  | ProcessExit addr "32 word"
  | SoftInt "8 word"

text \<open>
  Modelled from the spec: the declaration of \<open>regs_t\<close> is not among the sources (only
  its field \<open>ebx\<close> is used there). Section 3 of the specification lists the content of a
  Register Frame: the general-purpose registers, the four data segment selectors, the flags,
  instruction pointer and code segment, stack pointer and stack segment.
\<close>

record regs_t =
  eax :: "32 word"
  ebx :: "32 word"
  ecx :: "32 word"
  edx :: "32 word"
  esi :: "32 word"
  edi :: "32 word"
  ebp :: "32 word"
  esp :: "32 word"
  eip :: "32 word"
  eflags :: "32 word"
  cs :: "16 word"
  ss :: "16 word"
  ds :: "16 word"
  es :: "16 word"
  fs :: "16 word"
  gs :: "16 word"

text \<open>
  Segment descriptors, as far as the checks of the processor read them: whether the segment
  is a code segment, a data segment or a system segment; whether a code segment is readable
  or a data segment writable; whether a code segment is conforming; the privilege level of
  the descriptor; whether the segment is present.
\<close>

datatype seg_kind = CodeSeg | DataSeg | SystemSeg

record descriptor =
  kind :: seg_kind
  access :: bool
  conforming :: bool
  dpl :: "16 word"
  present :: bool

text \<open>
  The processor is its register file together with memory, the descriptor tables, the
  vector through which the kernel was entered (the interrupt being concluded) and the trace
  of operations so far. \<open>descriptors\<close> maps a selector with its two low bits cleared
  to the descriptor it addresses, and to \<open>None\<close> beyond the limit of its table. The
  tables do not change while a routine runs, and memory is flat: segment limits and paging
  are not modelled.
\<close>

record cpu = regs_t +
  mem :: "addr \<Rightarrow> 32 word"
  descriptors :: "16 word \<Rightarrow> descriptor option"
  vector :: "8 word"
  trace :: "event list"

text \<open>
  An instruction either completes with a new state or stops the routine: with a
  general-protection, segment-not-present or stack fault (the registers and memory are
  those before the instruction), or because \<open>iret\<close> leaves protected-mode code by a
  task switch or for virtual-8086 mode, which are not modelled further.
\<close>

datatype stop_reason =
    GP_fault "16 word"
  | NP_fault "16 word"
  | SS_fault "16 word"
  | Task_return
  | V86_return

type_synonym result = "(stop_reason \<times> cpu) + cpu"

definition state_of :: "result \<Rightarrow> cpu" where
  "state_of r = (case r of Inl (e, s) \<Rightarrow> s | Inr s \<Rightarrow> s)"

text \<open>An instruction that has no fault in this model.\<close>

definition ok :: "(cpu \<Rightarrow> cpu) \<Rightarrow> cpu \<Rightarrow> result" where
  "ok f s = Inr (f s)"

subsection \<open>Instructions\<close>

datatype reg = EAX | EBX | ECX | EDX | ESI | EDI | EBP | ESP

fun get_reg :: "reg \<Rightarrow> cpu \<Rightarrow> 32 word" where
  "get_reg EAX s = eax s"
| "get_reg EBX s = ebx s"
| "get_reg ECX s = ecx s"
| "get_reg EDX s = edx s"
| "get_reg ESI s = esi s"
| "get_reg EDI s = edi s"
| "get_reg EBP s = ebp s"
| "get_reg ESP s = esp s"

fun set_reg :: "reg \<Rightarrow> 32 word \<Rightarrow> cpu \<Rightarrow> cpu" where
  "set_reg EAX v s = s\<lparr>eax := v\<rparr>"
| "set_reg EBX v s = s\<lparr>ebx := v\<rparr>"
| "set_reg ECX v s = s\<lparr>ecx := v\<rparr>"
| "set_reg EDX v s = s\<lparr>edx := v\<rparr>"
| "set_reg ESI v s = s\<lparr>esi := v\<rparr>"
| "set_reg EDI v s = s\<lparr>edi := v\<rparr>"
| "set_reg EBP v s = s\<lparr>ebp := v\<rparr>"
| "set_reg ESP v s = s\<lparr>esp := v\<rparr>"

fun set_sreg :: "sreg \<Rightarrow> 16 word \<Rightarrow> cpu \<Rightarrow> cpu" where
  "set_sreg DS v s = s\<lparr>ds := v\<rparr>"
| "set_sreg ES v s = s\<lparr>es := v\<rparr>"
| "set_sreg FS v s = s\<lparr>fs := v\<rparr>"
| "set_sreg GS v s = s\<lparr>gs := v\<rparr>"

definition log :: "event \<Rightarrow> cpu \<Rightarrow> cpu" where
  "log e s = s\<lparr>trace := trace s @ [e]\<rparr>"

text \<open>
  Operands are written in the order of the source (AT&T syntax): source first, destination
  last. \<open>mov_rr\<close> is \<open>mov %src, %dst\<close>; \<open>mov_mr\<close> is \<open>mov off(%base), %dst\<close>.
\<close>

definition mov_rr :: "reg \<Rightarrow> reg \<Rightarrow> cpu \<Rightarrow> cpu" where
  "mov_rr src dst s = set_reg dst (get_reg src s) s"

definition mov_mr :: "32 word \<Rightarrow> reg \<Rightarrow> reg \<Rightarrow> cpu \<Rightarrow> cpu" where
  "mov_mr off base dst s = set_reg dst (mem s (get_reg base s + off)) s"

text \<open>
  The requested privilege level of a selector is its two low bits; the current privilege
  level is that of the selector in \<open>cs\<close>. A selector is null when the rest of it is 0.
\<close>

definition rpl :: "16 word \<Rightarrow> 16 word" where
  "rpl sel = sel AND 3"

text \<open>
  The check of the processor when \<open>ds\<close>, \<open>es\<close>, \<open>fs\<close> or \<open>gs\<close> is loaded with the
  selector \<open>sel\<close> at the privilege level \<open>cpl\<close>. A null selector is loaded without a
  check. Otherwise the selector must address a descriptor of a data segment or of a
  readable code segment; for a data segment or a code segment that is not conforming, the
  privilege level of the descriptor must not be below the requested level or the current
  level; the segment must be present.
\<close>

definition data_load_fault ::
    "(16 word \<Rightarrow> descriptor option) \<Rightarrow> 16 word \<Rightarrow> 16 word \<Rightarrow> stop_reason option" where
  "data_load_fault dt cpl sel =
     (if sel AND 0xFFFC = 0 then None
      else case dt (sel AND 0xFFFC) of
        None \<Rightarrow> Some (GP_fault (sel AND 0xFFFC))
      | Some d \<Rightarrow>
          if kind d = SystemSeg then Some (GP_fault (sel AND 0xFFFC))
          else if kind d = CodeSeg \<and> \<not> access d then Some (GP_fault (sel AND 0xFFFC))
          else if (kind d = DataSeg \<or> \<not> conforming d) \<and> (dpl d < rpl sel \<or> dpl d < cpl)
            then Some (GP_fault (sel AND 0xFFFC))
          else if \<not> present d then Some (NP_fault (sel AND 0xFFFC))
          else None)"

text \<open>
  \<open>mov_rs\<close> is \<open>mov %ax, %seg\<close> and the like: the low 16 bits of the register go to
  the segment register when the check passes; otherwise the instruction faults and the
  routine stops there.
\<close>

definition mov_rs :: "reg \<Rightarrow> sreg \<Rightarrow> cpu \<Rightarrow> result" where
  "mov_rs src seg s =
     (case data_load_fault (descriptors s) (rpl (cs s)) (ucast (get_reg src s)) of
        None \<Rightarrow>
          Inr (log (SegLoad seg (ucast (get_reg src s)))
                 (set_sreg seg (ucast (get_reg src s)) s))
      | Some e \<Rightarrow> Inl (e, s))"

text \<open>A push decrements the stack pointer by 4 and stores the doubleword there.\<close>

definition push :: "32 word \<Rightarrow> cpu \<Rightarrow> cpu" where
  "push v s = log (Push v) (s\<lparr>esp := esp s - 4, mem := (mem s)(esp s - 4 := v)\<rparr>)"

definition push_r :: "reg \<Rightarrow> cpu \<Rightarrow> cpu" where
  "push_r src s = push (get_reg src s) s"

definition push_m :: "32 word \<Rightarrow> reg \<Rightarrow> cpu \<Rightarrow> cpu" where
  "push_m off base s = push (mem s (get_reg base s + off)) s"

definition push_i :: "32 word \<Rightarrow> cpu \<Rightarrow> cpu" where
  "push_i imm s = push imm s"

text \<open>
  \<open>pushf\<close> stores the flags with VM and RF (bits 17 and 16) cleared in the stored image.
\<close>

definition pushf :: "cpu \<Rightarrow> cpu" where
  "pushf s = push (eflags s AND 0x00FCFFFF) s"

text \<open>
  \<open>pic_EOI\<close> is an external routine called with the C convention: its argument is the
  doubleword on top of the stack at the call. Only the call and its argument are recorded;
  the return address that \<open>call\<close> writes below the stack pointer and the registers that the
  callee may overwrite (\<open>eax\<close>, \<open>ecx\<close>, \<open>edx\<close>, the status flags) are not tracked.
\<close>

definition call_pic_EOI :: "cpu \<Rightarrow> cpu" where
  "call_pic_EOI s = log (PicEOI (mem s (esp s))) s"

text \<open>
  \<open>add $imm, %dst\<close>. The status flags it writes are not tracked: the only use of
  \<open>add\<close> below is followed by \<open>iret\<close>, which reloads them.
\<close>

definition add_ir :: "32 word \<Rightarrow> reg \<Rightarrow> cpu \<Rightarrow> cpu" where
  "add_ir imm dst s = set_reg dst (get_reg dst s + imm) s"

text \<open>\<open>sti\<close> sets the interrupt flag, bit 9 of the flags register.\<close>

definition sti :: "cpu \<Rightarrow> cpu" where
  "sti s = log Sti (s\<lparr>eflags := eflags s OR 0x200\<rparr>)"

text \<open>
  The I/O privilege level is bits 12 and 13 of the flags. The instruction \<open>sti\<close> raises a
  general-protection fault when the current level is above it (protected-mode virtual
  interrupts are taken to be off); \<open>sti_checked\<close> is the instruction with this check.
\<close>

definition iopl :: "32 word \<Rightarrow> 16 word" where
  "iopl flags = ucast (drop_bit 12 flags AND 3)"

definition sti_fault :: "16 word \<Rightarrow> 32 word \<Rightarrow> stop_reason option" where
  "sti_fault cpl flags = (if cpl \<le> iopl flags then None else Some (GP_fault 0))"

definition sti_checked :: "cpu \<Rightarrow> result" where
  "sti_checked s =
     (case sti_fault (rpl (cs s)) (eflags s) of
        None \<Rightarrow> Inr (sti s)
      | Some e \<Rightarrow> Inl (e, s))"

subsection \<open>The return from interrupt\<close>

text \<open>
  The check of the code selector that \<open>iret\<close> pops. It must not be null and must address
  a descriptor of a code segment; its requested level must not be more privileged than the
  current level; the privilege level of the descriptor must be the requested level (not
  above it for a conforming segment); the segment must be present.
\<close>

definition code_return_fault ::
    "(16 word \<Rightarrow> descriptor option) \<Rightarrow> 16 word \<Rightarrow> 16 word \<Rightarrow> stop_reason option" where
  "code_return_fault dt cpl sel =
     (if sel AND 0xFFFC = 0 then Some (GP_fault 0)
      else case dt (sel AND 0xFFFC) of
        None \<Rightarrow> Some (GP_fault (sel AND 0xFFFC))
      | Some d \<Rightarrow>
          if kind d = SystemSeg \<or> kind d = DataSeg then Some (GP_fault (sel AND 0xFFFC))
          else if rpl sel < cpl then Some (GP_fault (sel AND 0xFFFC))
          else if conforming d \<and> rpl sel < dpl d then Some (GP_fault (sel AND 0xFFFC))
          else if \<not> conforming d \<and> dpl d \<noteq> rpl sel then Some (GP_fault (sel AND 0xFFFC))
          else if \<not> present d then Some (NP_fault (sel AND 0xFFFC))
          else None)"

text \<open>
  The check of the stack selector that \<open>iret\<close> pops on a return to a less privileged
  level, \<open>level\<close> being the requested level of the code selector. The stack selector must
  not be null; it must request that level and address a descriptor of a writable data
  segment of that level; the segment must be present.
\<close>

definition stack_return_fault ::
    "(16 word \<Rightarrow> descriptor option) \<Rightarrow> 16 word \<Rightarrow> 16 word \<Rightarrow> stop_reason option" where
  "stack_return_fault dt level sel =
     (if sel AND 0xFFFC = 0 then Some (GP_fault 0)
      else case dt (sel AND 0xFFFC) of
        None \<Rightarrow> Some (GP_fault (sel AND 0xFFFC))
      | Some d \<Rightarrow>
          if rpl sel = level \<and> kind d = DataSeg \<and> access d \<and> dpl d = level
          then (if present d then None else Some (SS_fault (sel AND 0xFFFC)))
          else Some (GP_fault (sel AND 0xFFFC)))"

text \<open>
  After a return to a less privileged level, \<open>ds\<close>, \<open>es\<close>, \<open>fs\<close> and \<open>gs\<close> are each
  set to the null selector when they hold a data segment or a code segment that is not
  conforming whose privilege level is above the new level; otherwise they keep their value.
\<close>

definition keep_or_null :: "(16 word \<Rightarrow> descriptor option) \<Rightarrow> 16 word \<Rightarrow> 16 word \<Rightarrow> 16 word" where
  "keep_or_null dt level sel =
     (if sel AND 0xFFFC = 0 then sel
      else case dt (sel AND 0xFFFC) of
        None \<Rightarrow> sel
      | Some d \<Rightarrow>
          if (kind d = DataSeg \<or> (kind d = CodeSeg \<and> \<not> conforming d)) \<and> dpl d < level
          then 0 else sel)"

text \<open>
  The flags that \<open>iret\<close> loads from the popped image at the privilege level \<open>cpl\<close>: the
  status and control flags CF, PF, AF, ZF, SF, TF, DF, OF, NT, RF, AC and ID always; IF when
  the level is not above the I/O privilege level (bits 12 and 13 of the flags); the I/O
  privilege level, VIF and VIP at level 0. The other bits keep their value.
\<close>

definition iret_flags :: "16 word \<Rightarrow> 32 word \<Rightarrow> 32 word \<Rightarrow> 32 word" where
  "iret_flags cpl old img =
     (let loaded = (0x254DD5 :: 32 word) OR (if cpl \<le> iopl old then 0x200 else 0)
                     OR (if cpl = 0 then 0x183000 else 0)
      in (old AND (NOT loaded)) OR (img AND loaded))"

text \<open>
  \<open>iret\<close> in protected mode with 32-bit operands. With NT (bit 14) set in the flags it
  returns to the previous task. Otherwise it pops the instruction pointer, the code
  selector and the flags image; with VM (bit 17) set in the image at level 0 it returns to
  virtual-8086 mode. Otherwise the code selector is checked. At the same level the three
  doublewords are loaded. For a less privileged level the stack pointer and the stack
  selector are popped as well, the stack selector is checked, all five are loaded and the
  data segment registers are revisited.
\<close>

definition iret :: "cpu \<Rightarrow> result" where
  "iret s0 =
     (let s = log Iret s0;
          new_eip = mem s (esp s);
          new_cs = (ucast (mem s (esp s + 4)) :: 16 word);
          img = mem s (esp s + 8);
          new_esp = mem s (esp s + 12);
          new_ss = (ucast (mem s (esp s + 16)) :: 16 word);
          cpl = rpl (cs s);
          dt = descriptors s
      in if eflags s AND 0x4000 \<noteq> 0 then Inl (Task_return, s)
         else if img AND 0x20000 \<noteq> 0 \<and> cpl = 0 then Inl (V86_return, s)
         else case code_return_fault dt cpl new_cs of
           Some e \<Rightarrow> Inl (e, s)
         | None \<Rightarrow>
             if rpl new_cs = cpl then
               Inr (s\<lparr>eip := new_eip, cs := new_cs,
                       eflags := iret_flags cpl (eflags s) img, esp := esp s + 12\<rparr>)
             else case stack_return_fault dt (rpl new_cs) new_ss of
               Some e \<Rightarrow> Inl (e, s)
             | None \<Rightarrow>
                 Inr (s\<lparr>eip := new_eip, cs := new_cs,
                         eflags := iret_flags cpl (eflags s) img,
                         esp := new_esp, ss := new_ss,
                         ds := keep_or_null dt (rpl new_cs) (ds s),
                         es := keep_or_null dt (rpl new_cs) (es s),
                         fs := keep_or_null dt (rpl new_cs) (fs s),
                         gs := keep_or_null dt (rpl new_cs) (gs s)\<rparr>))"

text \<open>
  A routine is the sequence of its instructions, executed from first to last; it stops at
  the first instruction that does not complete.
\<close>

primrec run :: "(cpu \<Rightarrow> result) list \<Rightarrow> cpu \<Rightarrow> result" where
  "run [] s = Inr s"
| "run (i # is) s = (case i s of Inl stopped \<Rightarrow> Inl stopped | Inr s' \<Rightarrow> run is s')"

section \<open>The context switch routine\<close>

text \<open>
  \<open>context_switch\<close> of \<open>src/process/context_switch.s\<close>, one entry per instruction. On
  entry the stack holds the return address at \<open>esp\<close> and four arguments above it.
\<close>

definition context_switch_code :: "(cpu \<Rightarrow> result) list" where
  "context_switch_code =
     [ok (mov_rr ESP EBP),

      ok (mov_mr 12 EBP EAX),
      mov_rs EAX DS,
      mov_rs EAX ES,
      mov_rs EAX FS,
      mov_rs EAX GS,

      ok (push_r EAX),
      ok (push_m 4 EBP),
      ok pushf,

      ok (push_m 16 EBP),
      ok (push_m 8 EBP),

      ok (push_i 0),
      ok call_pic_EOI,
      ok (add_ir 4 ESP),

      sti_checked,
      iret]"

definition context_switch :: "cpu \<Rightarrow> result" where
  "context_switch s = run context_switch_code s"

text \<open>The routine up to \<open>iret\<close>: the state in which \<open>iret\<close> executes, if it is reached.\<close>

definition context_switch_before_iret :: "cpu \<Rightarrow> result" where
  "context_switch_before_iret s = run (butlast context_switch_code) s"

text \<open>
  The selector that the routine loads into the data segment registers is its third
  argument; it can be loaded when the check of the processor passes at the current level.
\<close>

definition data_selector_loads :: "cpu \<Rightarrow> bool" where
  "data_selector_loads s =
     (data_load_fault (descriptors s) (rpl (cs s)) (ucast (mem s (esp s + 12))) = None)"

text \<open>
  \<open>sti\<close> is allowed when the level at which the routine runs is not above the I/O
  privilege level of the flags at entry.
\<close>

definition sti_allowed :: "cpu \<Rightarrow> bool" where
  "sti_allowed s = (sti_fault (rpl (cs s)) (eflags s) = None)"

text \<open>The operations a routine added to the trace.\<close>

definition new_events :: "cpu \<Rightarrow> cpu \<Rightarrow> event list" where
  "new_events s s' = drop (length (trace s)) (trace s')"

text \<open>The lines acknowledged in a sequence of operations, in order.\<close>

fun eoi_lines :: "event list \<Rightarrow> 32 word list" where
  "eoi_lines [] = []"
| "eoi_lines (PicEOI line # evs) = line # eoi_lines evs"
| "eoi_lines (e # evs) = eoi_lines evs"

text \<open>The operations that precede the first \<open>sti\<close>.\<close>

definition before_sti :: "event list \<Rightarrow> event list" where
  "before_sti evs = takeWhile (\<lambda>e. e \<noteq> Sti) evs"

text \<open>
  The return image: the doublewords that the routine has left on the stack when it reaches
  \<open>iret\<close> (or stops before), from the top of the stack up to the stack pointer at entry.
\<close>

definition stack_words :: "cpu \<Rightarrow> nat \<Rightarrow> 32 word list" where
  "stack_words s n = map (\<lambda>i. mem s (esp s + 4 * of_nat i)) [0..<n]"

definition return_image :: "cpu \<Rightarrow> 32 word list" where
  "return_image s =
     stack_words (state_of (context_switch_before_iret s))
       (unat (esp s - esp (state_of (context_switch_before_iret s))) div 4)"

subsection \<open>Suspending and resuming a frame\<close>

text \<open>
  Modelled from the spec: the code that saves a frame on interrupt entry is not among the
  sources. Section 2 of the specification has a suspension save the CPU state as a
  Register Frame: suspending captures the register file.
\<close>

definition suspend :: "cpu \<Rightarrow> regs_t" where
  "suspend s =
     \<lparr>eax = eax s, ebx = ebx s, ecx = ecx s, edx = edx s, esi = esi s, edi = edi s,
      ebp = ebp s, esp = esp s, eip = eip s, eflags = eflags s,
      cs = cs s, ss = ss s, ds = ds s, es = es s, fs = fs s, gs = gs s\<rparr>"

text \<open>
  Modelled from the spec: the callers of \<open>context_switch\<close> are not among the sources;
  section 4.3 of the specification has the routine invoked with a destination frame. The
  routine reads four arguments: \<open>4(%ebp)\<close> becomes the stack pointer of the return
  image, \<open>8(%ebp)\<close> its instruction pointer, \<open>12(%ebp)\<close> the selector of the data
  segments and of the stack segment, \<open>16(%ebp)\<close> the code selector. \<open>switch_to_frame\<close>
  is a C call that passes the fields of a frame in these positions: the arguments are
  pushed from last to first, then the return address.
\<close>

definition call_with_frame :: "32 word \<Rightarrow> regs_t \<Rightarrow> cpu \<Rightarrow> cpu" where
  "call_with_frame return_address f k =
     push return_address
       (push (esp f) (push (eip f) (push (ucast (ds f)) (push (ucast (cs f)) k))))"

definition switch_to_frame :: "32 word \<Rightarrow> regs_t \<Rightarrow> cpu \<Rightarrow> result" where
  "switch_to_frame return_address f k = context_switch (call_with_frame return_address f k)"

text \<open>
  The stack segment and stack pointer pair is part of the return image when the two
  doublewords beneath flags, code selector and instruction pointer are the stack pointer
  and stack segment arguments.
\<close>

definition stack_pair_pushed :: "cpu \<Rightarrow> bool" where
  "stack_pair_pushed s =
     (drop 3 (return_image s) = [mem s (esp s + 4), mem s (esp s + 12)])"

text \<open>The privilege level the routine is asked to return to, and the current one.\<close>

definition destination_level :: "cpu \<Rightarrow> 16 word" where
  "destination_level s = rpl (ucast (mem s (esp s + 16)))"

definition current_level :: "cpu \<Rightarrow> 16 word" where
  "current_level s = rpl (cs s)"

subsection \<open>Example states\<close>

text \<open>
  Descriptor tables with flat segments: kernel code at \<open>0x08\<close> and kernel data at
  \<open>0x10\<close> (level 0), user code at \<open>0x18\<close> and user data at \<open>0x20\<close> (level 3).
\<close>

definition example_descriptors :: "16 word \<Rightarrow> descriptor option" where
  "example_descriptors =
     (\<lambda>_. None)
       (0x08 := Some \<lparr>kind = CodeSeg, access = True, conforming = False, dpl = 0,
                      present = True\<rparr>,
        0x10 := Some \<lparr>kind = DataSeg, access = True, conforming = False, dpl = 0,
                      present = True\<rparr>,
        0x18 := Some \<lparr>kind = CodeSeg, access = True, conforming = False, dpl = 3,
                      present = True\<rparr>,
        0x20 := Some \<lparr>kind = DataSeg, access = True, conforming = False, dpl = 3,
                      present = True\<rparr>)"

text \<open>
  A kernel state with interrupts disabled, running at level 0 on a stack at \<open>0x9000\<close>; the
  frame of a user process (level 3); the frame of a kernel thread (level 0); a frame whose
  data selector \<open>0x1237\<close> addresses no descriptor.
\<close>

definition example_kernel :: cpu where
  "example_kernel =
     \<lparr>eax = 0, ebx = 0, ecx = 0, edx = 0, esi = 0, edi = 0, ebp = 0x9100, esp = 0x9000,
      eip = 0x100000, eflags = 0x2, cs = 0x08, ss = 0x10, ds = 0x10, es = 0x10,
      fs = 0x10, gs = 0x10, mem = (\<lambda>_. 0), descriptors = example_descriptors,
      vector = 0x20, trace = []\<rparr>"

definition example_user_frame :: regs_t where
  "example_user_frame =
     \<lparr>eax = 1, ebx = 7, ecx = 3, edx = 4, esi = 5, edi = 6, ebp = 0xBFFFF100,
      esp = 0xBFFFF000, eip = 0x08048000, eflags = 0x202, cs = 0x1B, ss = 0x23,
      ds = 0x23, es = 0x23, fs = 0x23, gs = 0x23\<rparr>"

definition example_kernel_frame :: regs_t where
  "example_kernel_frame =
     \<lparr>eax = 1, ebx = 7, ecx = 3, edx = 4, esi = 5, edi = 6, ebp = 0xA100,
      esp = 0xA000, eip = 0x101000, eflags = 0x202, cs = 0x08, ss = 0x10,
      ds = 0x10, es = 0x10, fs = 0x10, gs = 0x10\<rparr>"

definition example_bad_frame :: regs_t where
  "example_bad_frame = example_user_frame\<lparr>ds := 0x1237\<rparr>"

text \<open>The entry states of \<open>context_switch\<close> called by the example kernel.\<close>

definition example_entry :: "8 word \<Rightarrow> regs_t \<Rightarrow> cpu" where
  "example_entry v f = call_with_frame 0x100000 f (example_kernel\<lparr>vector := v\<rparr>)"

text \<open>
  The entry state of \<open>context_switch\<close> called with the user frame by code that runs at
  level 3, the I/O privilege level in the flags being 0.
\<close>

definition example_unprivileged_entry :: cpu where
  "example_unprivileged_entry =
     call_with_frame 0x100000 example_user_frame (example_kernel\<lparr>cs := 0x1B\<rparr>)"

text \<open>The states reached by switching from the example kernel to the two valid frames.\<close>

definition example_resumed_user :: cpu where
  "example_resumed_user =
     state_of (switch_to_frame 0x100000 example_user_frame example_kernel)"

definition example_resumed_kernel :: cpu where
  "example_resumed_kernel =
     state_of (switch_to_frame 0x100000 example_kernel_frame example_kernel)"

section \<open>The exit system call\<close>

text \<open>
  \<open>process_exit\<close> and \<open>pic_EOI\<close> are external routines: a call is recorded with its
  arguments. \<open>STI()\<close> is a macro of a header that is not among the sources: it enables
  interrupts, which is the effect of \<open>sti\<close>.
\<close>

definition process_exit :: "addr \<Rightarrow> 32 word \<Rightarrow> cpu \<Rightarrow> cpu" where
  "process_exit process status s = log (ProcessExit process status) s"

definition pic_EOI :: "32 word \<Rightarrow> cpu \<Rightarrow> cpu" where
  "pic_EOI irq s = log (PicEOI irq) s"

definition STI :: "cpu \<Rightarrow> cpu" where
  "STI s = sti s"

text \<open>
  \<open>while(1) ;\<close> has no exit: the loop is a partial function and not returning is the value
  \<open>None\<close>.
\<close>

partial_function (option) while_1 :: "cpu \<Rightarrow> cpu option" where
  "while_1 s = while_1 s"

text \<open>
  A routine either returns to its caller with a final state, or never does; then the state
  is the last one it reached.
\<close>

datatype outcome = Returns cpu | Never cpu

text \<open>
  Lines 8 to 11 of \<open>sys_exit\<close>: the state in which the software interrupt \<open>int $0x20\<close>
  is taken.
\<close>

definition sys_exit_to_trap :: "addr \<Rightarrow> regs_t \<Rightarrow> cpu \<Rightarrow> cpu" where
  "sys_exit_to_trap process registers s0 =
     (let s = process_exit process (ebx registers) s0;
          s = pic_EOI 0x80 s;
          s = STI s
      in log (SoftInt 0x20) s)"

text \<open>
  The handler of vector \<open>0x20\<close> is the kernel's resume path, a parameter here: from the state
  at the trap it either never comes back (\<open>None\<close>) or comes back with some state. In the
  second case \<open>sys_exit\<close> goes on with the loop of lines 12 and 13.
\<close>

definition sys_exit :: "(cpu \<Rightarrow> cpu option) \<Rightarrow> addr \<Rightarrow> regs_t \<Rightarrow> cpu \<Rightarrow> outcome" where
  "sys_exit resume process registers s0 =
     (let s = sys_exit_to_trap process registers s0
      in case resume s of
           None \<Rightarrow> Never s
         | Some s' \<Rightarrow> (case while_1 s' of None \<Rightarrow> Never s' | Some s'' \<Rightarrow> Returns s''))"

text \<open>The calls of \<open>process_exit\<close> in a sequence of operations, with their arguments.\<close>

fun process_exit_calls :: "event list \<Rightarrow> (addr \<times> 32 word) list" where
  "process_exit_calls [] = []"
| "process_exit_calls (ProcessExit p status # evs) = (p, status) # process_exit_calls evs"
| "process_exit_calls (e # evs) = process_exit_calls evs"

section \<open>Boot tags\<close>

text \<open>
  \<open>multiboot.h\<close> is not among the sources. The tag types that \<open>read_boot_tags\<close> names are
  the constructors below; every other type is \<open>MULTIBOOT_TAG_TYPE_OTHER\<close>. A
  \<open>multiboot_tag\<close> holds what the routine reads from memory through a tag pointer: the
  type and the size of the tag, and the two memory sizes (when the pointer is taken as a
  \<open>multiboot_tag_basic_meminfo_t\<close>). Memory maps the address of a tag to this content.
\<close>

datatype multiboot_tag_type =
    MULTIBOOT_TAG_TYPE_END
  | MULTIBOOT_TAG_TYPE_CMDLINE
  | MULTIBOOT_TAG_TYPE_BOOT_LOADER_NAME
  | MULTIBOOT_TAG_TYPE_MODULE
  | MULTIBOOT_TAG_TYPE_BASIC_MEMINFO
  | MULTIBOOT_TAG_TYPE_BOOTDEV
  | MULTIBOOT_TAG_TYPE_OTHER

record multiboot_tag =
  tag_type :: multiboot_tag_type
  tag_size :: "32 word"
  tag_mem_lower :: "32 word"
  tag_mem_upper :: "32 word"

type_synonym tag_memory = "addr \<Rightarrow> multiboot_tag"

text \<open>
  The fields of \<open>boot_info_t\<close> that \<open>read_boot_tags\<close> writes; \<open>bzero\<close> sets all of
  them to 0 first.
\<close>

record boot_info_t =
  cmdline :: addr
  loader_name :: addr
  mem_lower :: "32 word"
  mem_upper :: "32 word"

text \<open>
  The \<open>switch\<close> of the loop body, for the tag pointer \<open>tag\<close> and the content \<open>t\<close>
  read through it. \<open>((multiboot_tag_string_t *) tag)->string\<close> is an array member: its
  value is the address of the member, which follows the two 32-bit members \<open>type\<close> and
  \<open>size\<close>, that is \<open>tag + 8\<close>.
\<close>

definition switch_tag :: "addr \<Rightarrow> multiboot_tag \<Rightarrow> boot_info_t \<Rightarrow> boot_info_t" where
  "switch_tag tag t data =
     (case tag_type t of
        MULTIBOOT_TAG_TYPE_CMDLINE \<Rightarrow> data\<lparr>cmdline := tag + 8\<rparr>
      | MULTIBOOT_TAG_TYPE_BOOT_LOADER_NAME \<Rightarrow> data\<lparr>loader_name := tag + 8\<rparr>
      | MULTIBOOT_TAG_TYPE_MODULE \<Rightarrow> data
      | MULTIBOOT_TAG_TYPE_BASIC_MEMINFO \<Rightarrow>
          data\<lparr>mem_lower := tag_mem_lower t, mem_upper := tag_mem_upper t\<rparr>
      | MULTIBOOT_TAG_TYPE_BOOTDEV \<Rightarrow> data
      | _ \<Rightarrow> data)"

text \<open>The address of the tag after \<open>tag\<close>: \<open>(uint8_t *) tag + ((tag->size + 7) & ~7)\<close>.\<close>

definition next_tag :: "tag_memory \<Rightarrow> addr \<Rightarrow> addr" where
  "next_tag m tag = tag + ((tag_size (m tag) + 7) AND NOT 7)"

text \<open>The \<open>while\<close> loop. It may run forever: not returning is the value \<open>None\<close>.\<close>

partial_function (option) read_boot_tags_loop ::
    "tag_memory \<Rightarrow> addr \<Rightarrow> boot_info_t \<Rightarrow> boot_info_t option" where
  "read_boot_tags_loop m tag data =
     (if tag_type (m tag) \<noteq> MULTIBOOT_TAG_TYPE_END
      then read_boot_tags_loop m (next_tag m tag) (switch_tag tag (m tag) data)
      else Some data)"

definition read_boot_tags :: "tag_memory \<Rightarrow> addr \<Rightarrow> boot_info_t option" where
  "read_boot_tags m ptr =
     read_boot_tags_loop m (ptr + 8)
       \<lparr>cmdline = 0, loader_name = 0, mem_lower = 0, mem_upper = 0\<rparr>"

subsection \<open>Tag sequences in memory\<close>

text \<open>
  A tag sequence is a list of tags with their addresses. \<open>stored_tags m p ts\<close>: memory
  holds the tags of \<open>ts\<close> at their addresses, which increase from \<open>p\<close>, and the
  sequence is terminated by an \<open>END\<close> tag, its only one. Nothing is said here about the
  size fields.
\<close>

fun stored_tags :: "tag_memory \<Rightarrow> addr \<Rightarrow> (addr \<times> multiboot_tag) list \<Rightarrow> bool" where
  "stored_tags m p [] = False"
| "stored_tags m p [(a, t)] = (a = p \<and> m a = t \<and> tag_type t = MULTIBOOT_TAG_TYPE_END)"
| "stored_tags m p ((a, t) # (b, u) # ts) =
     (a = p \<and> m a = t \<and> tag_type t \<noteq> MULTIBOOT_TAG_TYPE_END \<and> unat a < unat b \<and>
      stored_tags m b ((b, u) # ts))"

text \<open>A size rounded up to a multiple of 8.\<close>

definition round_up_8 :: "nat \<Rightarrow> nat" where
  "round_up_8 n = (n + 7) div 8 * 8"

text \<open>
  \<open>sizes_fit ts\<close>: tags are padded to a multiple of 8 bytes, and the size field of each
  tag, rounded up to a multiple of 8, is the distance from the tag to the next one.
\<close>

fun sizes_fit :: "(addr \<times> multiboot_tag) list \<Rightarrow> bool" where
  "sizes_fit ((a, t) # (b, u) # ts) =
     (unat a + round_up_8 (unat (tag_size t)) = unat b \<and> sizes_fit ((b, u) # ts))"
| "sizes_fit ts = True"

definition tag_list :: "tag_memory \<Rightarrow> addr \<Rightarrow> (addr \<times> multiboot_tag) list \<Rightarrow> bool" where
  "tag_list m p ts = (stored_tags m p ts \<and> sizes_fit ts)"

text \<open>
  A tag sequence without its \<open>MODULE\<close> and \<open>BOOTDEV\<close> tags; its tags that hold a
  string; and its tags without their addresses.
\<close>

definition is_module_or_bootdev :: "multiboot_tag \<Rightarrow> bool" where
  "is_module_or_bootdev t =
     (tag_type t = MULTIBOOT_TAG_TYPE_MODULE \<or> tag_type t = MULTIBOOT_TAG_TYPE_BOOTDEV)"

definition without_module_bootdev ::
    "(addr \<times> multiboot_tag) list \<Rightarrow> (addr \<times> multiboot_tag) list" where
  "without_module_bootdev ts = filter (\<lambda>e. \<not> is_module_or_bootdev (snd e)) ts"

definition is_string_tag :: "multiboot_tag \<Rightarrow> bool" where
  "is_string_tag t =
     (tag_type t = MULTIBOOT_TAG_TYPE_CMDLINE \<or>
      tag_type t = MULTIBOOT_TAG_TYPE_BOOT_LOADER_NAME)"

definition string_tags ::
    "(addr \<times> multiboot_tag) list \<Rightarrow> (addr \<times> multiboot_tag) list" where
  "string_tags ts = filter (\<lambda>e. is_string_tag (snd e)) ts"

definition tags_of :: "(addr \<times> multiboot_tag) list \<Rightarrow> multiboot_tag list" where
  "tags_of ts = map snd ts"

text \<open>What the loop computes on a tag sequence.\<close>

fun tags_result :: "(addr \<times> multiboot_tag) list \<Rightarrow> boot_info_t \<Rightarrow> boot_info_t" where
  "tags_result [] data = data"
| "tags_result ((a, t) # ts) data =
     (if tag_type t = MULTIBOOT_TAG_TYPE_END then data
      else tags_result ts (switch_tag a t data))"

definition zero_boot_info :: boot_info_t where
  "zero_boot_info = \<lparr>cmdline = 0, loader_name = 0, mem_lower = 0, mem_upper = 0\<rparr>"

subsection \<open>Example boot information\<close>

text \<open>
  Tags behind the 8-byte header at \<open>0x10000\<close>. In \<open>example_boot_memory\<close>: a command
  line, the basic memory information, a module, the boot device and the \<open>END\<close> tag;
  \<open>example_boot_memory_stripped\<close> is the same memory with the \<open>END\<close> tag in the place of
  the module. In \<open>example_module_first\<close>: a module, a command line and the \<open>END\<close> tag;
  in \<open>example_cmdline_first\<close> the same command line and the \<open>END\<close> tag alone.
\<close>

definition example_cmdline :: multiboot_tag where
  "example_cmdline =
     \<lparr>tag_type = MULTIBOOT_TAG_TYPE_CMDLINE, tag_size = 12,
      tag_mem_lower = 0x00636261, tag_mem_upper = 0\<rparr>"

definition example_meminfo :: multiboot_tag where
  "example_meminfo =
     \<lparr>tag_type = MULTIBOOT_TAG_TYPE_BASIC_MEMINFO, tag_size = 16,
      tag_mem_lower = 640, tag_mem_upper = 130048\<rparr>"

definition example_module :: multiboot_tag where
  "example_module =
     \<lparr>tag_type = MULTIBOOT_TAG_TYPE_MODULE, tag_size = 16,
      tag_mem_lower = 0x200000, tag_mem_upper = 0x201000\<rparr>"

definition example_bootdev :: multiboot_tag where
  "example_bootdev =
     \<lparr>tag_type = MULTIBOOT_TAG_TYPE_BOOTDEV, tag_size = 20,
      tag_mem_lower = 0x80, tag_mem_upper = 0\<rparr>"

definition example_end :: multiboot_tag where
  "example_end =
     \<lparr>tag_type = MULTIBOOT_TAG_TYPE_END, tag_size = 8,
      tag_mem_lower = 0, tag_mem_upper = 0\<rparr>"

definition example_boot_memory :: tag_memory where
  "example_boot_memory =
     (\<lambda>_. example_end)
       (0x10008 := example_cmdline, 0x10018 := example_meminfo, 0x10028 := example_module,
        0x10038 := example_bootdev, 0x10050 := example_end)"

definition example_boot_tags :: "(addr \<times> multiboot_tag) list" where
  "example_boot_tags =
     [(0x10008, example_cmdline), (0x10018, example_meminfo), (0x10028, example_module),
      (0x10038, example_bootdev), (0x10050, example_end)]"

definition example_boot_memory_stripped :: tag_memory where
  "example_boot_memory_stripped =
     (\<lambda>_. example_end)
       (0x10008 := example_cmdline, 0x10018 := example_meminfo, 0x10028 := example_end)"

definition example_boot_tags_stripped :: "(addr \<times> multiboot_tag) list" where
  "example_boot_tags_stripped =
     [(0x10008, example_cmdline), (0x10018, example_meminfo), (0x10028, example_end)]"

definition example_module_first :: tag_memory where
  "example_module_first =
     (\<lambda>_. example_end)
       (0x10008 := example_module, 0x10018 := example_cmdline, 0x10028 := example_end)"

definition example_module_first_tags :: "(addr \<times> multiboot_tag) list" where
  "example_module_first_tags =
     [(0x10008, example_module), (0x10018, example_cmdline), (0x10028, example_end)]"

definition example_cmdline_first :: tag_memory where
  "example_cmdline_first =
     (\<lambda>_. example_end)(0x10008 := example_cmdline, 0x10018 := example_end)"

definition example_cmdline_first_tags :: "(addr \<times> multiboot_tag) list" where
  "example_cmdline_first_tags = [(0x10008, example_cmdline), (0x10018, example_end)]"

text \<open>
  Memory whose first tag is a command line with the size field \<open>sz\<close>, with an \<open>END\<close>
  tag 8 bytes behind it.
\<close>

definition example_stuck_tag :: "32 word \<Rightarrow> multiboot_tag" where
  "example_stuck_tag sz =
     \<lparr>tag_type = MULTIBOOT_TAG_TYPE_CMDLINE, tag_size = sz,
      tag_mem_lower = 0, tag_mem_upper = 8\<rparr>"

definition example_stuck_memory :: "32 word \<Rightarrow> tag_memory" where
  "example_stuck_memory sz =
     (\<lambda>_. example_end)(0x10008 := example_stuck_tag sz, 0x10010 := example_end)"

definition example_stuck_tags :: "32 word \<Rightarrow> (addr \<times> multiboot_tag) list" where
  "example_stuck_tags sz = [(0x10008, example_stuck_tag sz), (0x10010, example_end)]"

section \<open>Alignment macros\<close>

text \<open>
  The macros of \<open>src/util/util.h\<close> on 32-bit addresses: \<open>intptr_t\<close> has the width of a
  pointer, the bitwise operations are those of two's complement, and adding to the pointer
  that \<open>ALIGN_DOWN\<close> yields counts bytes and wraps at \<open>2 ^ 32\<close>.
\<close>

definition IS_ALIGNED :: "32 word \<Rightarrow> 32 word \<Rightarrow> bool" where
  "IS_ALIGNED ptr n = (ptr AND (n - 1) = 0)"

definition ALIGN_DOWN :: "32 word \<Rightarrow> 32 word \<Rightarrow> 32 word" where
  "ALIGN_DOWN ptr n = ptr AND NOT (n - 1)"

definition ALIGN_UP :: "32 word \<Rightarrow> 32 word \<Rightarrow> 32 word" where
  "ALIGN_UP ptr n = ALIGN_DOWN ptr n + n"

definition ALIGN :: "32 word \<Rightarrow> 32 word \<Rightarrow> 32 word" where
  "ALIGN ptr n = (if IS_ALIGNED ptr n then ptr else ALIGN_UP ptr n)"

text \<open>\<open>r\<close> is the least multiple of \<open>n\<close> that is greater than or equal to \<open>p\<close>.\<close>

definition least_multiple_geq :: "nat \<Rightarrow> nat \<Rightarrow> nat \<Rightarrow> bool" where
  "least_multiple_geq n p r = (n dvd r \<and> p \<le> r \<and> (\<forall>m. n dvd m \<and> p \<le> m \<longrightarrow> r \<le> m))"

section \<open>Symbolic execution of the context switch\<close>

lemmas instr_defs = ok_def mov_rr_def mov_mr_def mov_rs_def push_def push_r_def push_m_def
  push_i_def pushf_def call_pic_EOI_def add_ir_def sti_checked_def sti_def log_def

text \<open>
  When the data selector can be loaded and \<open>sti\<close> is allowed, \<open>iret\<close> is reached; this
  is the state in which it executes, in terms of the state at entry.
\<close>

lemma context_switch_before_iret_state:
  assumes "data_selector_loads s" and "sti_allowed s"
  shows "context_switch_before_iret s = Inr
     (s\<lparr>ebp := esp s, eax := mem s (esp s + 12),
       ds := ucast (mem s (esp s + 12)), es := ucast (mem s (esp s + 12)),
       fs := ucast (mem s (esp s + 12)), gs := ucast (mem s (esp s + 12)),
       mem := (mem s)
         (esp s - 4 := mem s (esp s + 12), esp s - 8 := mem s (esp s + 4),
          esp s - 12 := eflags s AND 0x00FCFFFF,
          esp s - 16 := mem s (esp s + 16),
          esp s - 20 := mem s (esp s + 8), esp s - 24 := 0),
       esp := esp s - 20, eflags := eflags s OR 0x200,
       trace := trace s @
         [SegLoad DS (ucast (mem s (esp s + 12))),
          SegLoad ES (ucast (mem s (esp s + 12))),
          SegLoad FS (ucast (mem s (esp s + 12))),
          SegLoad GS (ucast (mem s (esp s + 12))),
          Push (mem s (esp s + 12)), Push (mem s (esp s + 4)),
          Push (eflags s AND 0x00FCFFFF), Push (mem s (esp s + 16)),
          Push (mem s (esp s + 8)), Push 0, PicEOI 0, Sti]\<rparr>)"
  using assms
  by (simp add: data_selector_loads_def sti_allowed_def context_switch_before_iret_def
      context_switch_code_def instr_defs)

text \<open>
  When the data selector can be loaded and \<open>sti\<close> is not allowed, the routine stops at
  \<open>sti\<close>: the return image is on the stack and \<open>pic_EOI\<close> has been called.
\<close>

lemma context_switch_stops_at_sti:
  assumes "data_selector_loads s" and "sti_fault (rpl (cs s)) (eflags s) = Some e"
  shows "context_switch_before_iret s = Inl (e,
     s\<lparr>ebp := esp s, eax := mem s (esp s + 12),
       ds := ucast (mem s (esp s + 12)), es := ucast (mem s (esp s + 12)),
       fs := ucast (mem s (esp s + 12)), gs := ucast (mem s (esp s + 12)),
       mem := (mem s)
         (esp s - 4 := mem s (esp s + 12), esp s - 8 := mem s (esp s + 4),
          esp s - 12 := eflags s AND 0x00FCFFFF,
          esp s - 16 := mem s (esp s + 16),
          esp s - 20 := mem s (esp s + 8), esp s - 24 := 0),
       esp := esp s - 20,
       trace := trace s @
         [SegLoad DS (ucast (mem s (esp s + 12))),
          SegLoad ES (ucast (mem s (esp s + 12))),
          SegLoad FS (ucast (mem s (esp s + 12))),
          SegLoad GS (ucast (mem s (esp s + 12))),
          Push (mem s (esp s + 12)), Push (mem s (esp s + 4)),
          Push (eflags s AND 0x00FCFFFF), Push (mem s (esp s + 16)),
          Push (mem s (esp s + 8)), Push 0, PicEOI 0]\<rparr>)"
  using assms
  by (simp add: data_selector_loads_def context_switch_before_iret_def
      context_switch_code_def instr_defs)

lemma not_allowed_fault:
  assumes "\<not> sti_allowed s"
  obtains e where "sti_fault (rpl (cs s)) (eflags s) = Some e"
  using assms by (auto simp: sti_allowed_def)

text \<open>
  When the data selector cannot be loaded, the routine stops at the first load of a segment
  register: nothing has been pushed and nothing is in the trace.
\<close>

lemma context_switch_stops_at_first_load:
  assumes "data_load_fault (descriptors s) (rpl (cs s)) (ucast (mem s (esp s + 12))) = Some e"
  shows "context_switch s = Inl (e, s\<lparr>ebp := esp s, eax := mem s (esp s + 12)\<rparr>)"
    and "context_switch_before_iret s = Inl (e, s\<lparr>ebp := esp s, eax := mem s (esp s + 12)\<rparr>)"
  using assms
  by (simp_all add: context_switch_def context_switch_before_iret_def context_switch_code_def
      instr_defs)

lemma not_loads_fault:
  assumes "\<not> data_selector_loads s"
  obtains e where
    "data_load_fault (descriptors s) (rpl (cs s)) (ucast (mem s (esp s + 12))) = Some e"
  using assms by (auto simp: data_selector_loads_def)

lemma run_append:
  "run (xs @ ys) s = (case run xs s of Inl stopped \<Rightarrow> Inl stopped | Inr s' \<Rightarrow> run ys s')"
  by (induction xs arbitrary: s) (simp_all split: sum.split)

lemma context_switch_iret:
  "context_switch s =
     (case context_switch_before_iret s of Inl stopped \<Rightarrow> Inl stopped | Inr s' \<Rightarrow> iret s')"
proof -
  have "context_switch_code = butlast context_switch_code @ [iret]"
    by (simp add: context_switch_code_def)
  then have "run context_switch_code s = run (butlast context_switch_code @ [iret]) s"
    by simp
  then show ?thesis
    by (simp add: context_switch_def context_switch_before_iret_def run_append
        split: sum.split)
qed

lemma trace_iret: "trace (state_of (iret s)) = trace s @ [Iret]"
  by (simp add: iret_def Let_def log_def state_of_def split: option.split)

lemma context_switch_trace:
  assumes "data_selector_loads s" and "sti_allowed s"
  shows "trace (state_of (context_switch s)) = trace s @
     [SegLoad DS (ucast (mem s (esp s + 12))),
      SegLoad ES (ucast (mem s (esp s + 12))),
      SegLoad FS (ucast (mem s (esp s + 12))),
      SegLoad GS (ucast (mem s (esp s + 12))),
      Push (mem s (esp s + 12)), Push (mem s (esp s + 4)),
      Push (eflags s AND 0x00FCFFFF), Push (mem s (esp s + 16)),
      Push (mem s (esp s + 8)), Push 0, PicEOI 0, Sti, Iret]"
  by (simp add: context_switch_iret trace_iret context_switch_before_iret_state [OF assms])

lemma context_switch_trace_sti_fault:
  assumes "data_selector_loads s" and "\<not> sti_allowed s"
  shows "trace (state_of (context_switch s)) = trace s @
     [SegLoad DS (ucast (mem s (esp s + 12))),
      SegLoad ES (ucast (mem s (esp s + 12))),
      SegLoad FS (ucast (mem s (esp s + 12))),
      SegLoad GS (ucast (mem s (esp s + 12))),
      Push (mem s (esp s + 12)), Push (mem s (esp s + 4)),
      Push (eflags s AND 0x00FCFFFF), Push (mem s (esp s + 16)),
      Push (mem s (esp s + 8)), Push 0, PicEOI 0]"
proof -
  from assms(2) obtain e where "sti_fault (rpl (cs s)) (eflags s) = Some e"
    by (rule not_allowed_fault)
  from context_switch_stops_at_sti [OF assms(1) this] show ?thesis
    by (simp add: context_switch_iret state_of_def)
qed

lemma context_switch_trace_fault:
  assumes "\<not> data_selector_loads s"
  shows "trace (state_of (context_switch s)) = trace s"
proof -
  from assms obtain e where
    "data_load_fault (descriptors s) (rpl (cs s)) (ucast (mem s (esp s + 12))) = Some e"
    by (rule not_loads_fault)
  then show ?thesis
    by (simp add: context_switch_stops_at_first_load state_of_def)
qed

lemma new_events_append: "trace s' = trace s @ evs \<Longrightarrow> new_events s s' = evs"
  by (simp add: new_events_def)

lemma new_events_same: "trace s' = trace s \<Longrightarrow> new_events s s' = []"
  by (simp add: new_events_def)

lemma return_image_eq:
  assumes "data_selector_loads s"
  shows "return_image s =
     [mem s (esp s + 8), mem s (esp s + 16), eflags s AND 0x00FCFFFF,
      mem s (esp s + 4), mem s (esp s + 12)]"
proof (cases "sti_allowed s")
  case True
  show ?thesis
    apply (simp add: return_image_def stack_words_def state_of_def
        context_switch_before_iret_state [OF assms True])
    apply (simp add: upt_rec)
    done
next
  case False
  then obtain e where "sti_fault (rpl (cs s)) (eflags s) = Some e"
    by (rule not_allowed_fault)
  from context_switch_stops_at_sti [OF assms this] show ?thesis
    apply (simp add: return_image_def stack_words_def state_of_def)
    apply (simp add: upt_rec)
    done
qed

lemma return_image_fault:
  assumes "\<not> data_selector_loads s"
  shows "return_image s = []"
proof -
  from assms obtain e where
    "data_load_fault (descriptors s) (rpl (cs s)) (ucast (mem s (esp s + 12))) = Some e"
    by (rule not_loads_fault)
  then show ?thesis
    by (simp add: return_image_def stack_words_def state_of_def
        context_switch_stops_at_first_load)
qed

lemma call_with_frame_state:
  "call_with_frame ra f k =
     k\<lparr>esp := esp k - 20,
       mem := (mem k)(esp k - 4 := ucast (cs f), esp k - 8 := ucast (ds f),
                esp k - 12 := eip f, esp k - 16 := esp f, esp k - 20 := ra),
       trace := trace k @ [Push (ucast (cs f)), Push (ucast (ds f)), Push (eip f),
                  Push (esp f), Push ra]\<rparr>"
  by (simp add: call_with_frame_def push_def log_def)

lemma ucast_16_32_16: "(ucast (ucast (x :: 16 word) :: 32 word) :: 16 word) = x"
  by (rule ucast_up_ucast_id) (simp add: is_up)

lemma stack_ok_keeps_selector:
  "stack_return_fault dt level sel = None \<Longrightarrow> keep_or_null dt level sel = sel"
  by (auto simp: stack_return_fault_def keep_or_null_def split: if_splits option.splits)

text \<open>
  The state in which \<open>iret\<close> executes after a call with a frame, field by field.
\<close>

lemma switch_to_frame_before_iret:
  assumes "data_selector_loads (call_with_frame ra f k)"
      and "sti_allowed (call_with_frame ra f k)"
  obtains b where
    "context_switch_before_iret (call_with_frame ra f k) = Inr b"
    "esp b = esp k - 40" "mem b (esp k - 40) = eip f" "mem b (esp k - 36) = ucast (cs f)"
    "mem b (esp k - 32) = eflags k AND 0x00FCFFFF" "mem b (esp k - 28) = esp f"
    "mem b (esp k - 24) = ucast (ds f)"
    "cs b = cs k" "ss b = ss k" "ds b = ds f" "es b = ds f" "fs b = ds f" "gs b = ds f"
    "ebx b = ebx k" "esi b = esi k" "edi b = edi k" "eflags b = eflags k OR 0x200"
    "descriptors b = descriptors k"
  using context_switch_before_iret_state [OF assms]
  by (simp add: call_with_frame_state ucast_16_32_16)

text \<open>What a completed \<open>iret\<close> has loaded.\<close>

lemma iret_completes:
  assumes "iret b = Inr s'"
  shows "eip s' = mem b (esp b)" and "cs s' = ucast (mem b (esp b + 4))"
    and "ebx s' = ebx b" and "esi s' = esi b" and "edi s' = edi b"
    and "rpl (cs b) \<le> rpl (ucast (mem b (esp b + 4)))"
    and "eflags s' = iret_flags (rpl (cs b)) (eflags b) (mem b (esp b + 8))"
    and "rpl (ucast (mem b (esp b + 4))) = rpl (cs b) \<Longrightarrow>
           esp s' = esp b + 12 \<and> ss s' = ss b \<and>
           ds s' = ds b \<and> es s' = es b \<and> fs s' = fs b \<and> gs s' = gs b"
    and "rpl (ucast (mem b (esp b + 4))) \<noteq> rpl (cs b) \<Longrightarrow>
           esp s' = mem b (esp b + 12) \<and> ss s' = ucast (mem b (esp b + 16)) \<and>
           stack_return_fault (descriptors b) (rpl (ucast (mem b (esp b + 4))))
             (ucast (mem b (esp b + 16))) = None \<and>
           ds s' = keep_or_null (descriptors b) (rpl (ucast (mem b (esp b + 4)))) (ds b) \<and>
           es s' = keep_or_null (descriptors b) (rpl (ucast (mem b (esp b + 4)))) (es b) \<and>
           fs s' = keep_or_null (descriptors b) (rpl (ucast (mem b (esp b + 4)))) (fs b) \<and>
           gs s' = keep_or_null (descriptors b) (rpl (ucast (mem b (esp b + 4)))) (gs b)"
  using assms
  by (auto simp: iret_def Let_def log_def code_return_fault_def
      split: if_splits option.splits)

text \<open>
  A switch to a frame that completes: what the resumed state holds, in terms of the frame
  and of the caller's state.
\<close>

lemma switch_to_frame_completes:
  assumes "switch_to_frame ra f k = Inr s'"
  shows "data_selector_loads (call_with_frame ra f k)"
    and "eip s' = eip f" and "cs s' = cs f"
    and "ebx s' = ebx k" and "esi s' = esi k" and "edi s' = edi k"
    and "rpl (cs k) \<le> rpl (cs f)"
    and "eflags s' = iret_flags (rpl (cs k)) (eflags k OR 0x200) (eflags k AND 0x00FCFFFF)"
    and "ds s' = ds f" and "es s' = ds f" and "fs s' = ds f" and "gs s' = ds f"
    and "rpl (cs f) = rpl (cs k) \<Longrightarrow> esp s' = esp k - 28 \<and> ss s' = ss k"
    and "rpl (cs f) \<noteq> rpl (cs k) \<Longrightarrow> esp s' = esp f \<and> ss s' = ds f"
proof -
  show loads: "data_selector_loads (call_with_frame ra f k)"
  proof (rule ccontr)
    assume "\<not> data_selector_loads (call_with_frame ra f k)"
    then obtain e where "data_load_fault (descriptors (call_with_frame ra f k))
        (rpl (cs (call_with_frame ra f k)))
        (ucast (mem (call_with_frame ra f k) (esp (call_with_frame ra f k) + 12))) = Some e"
      by (rule not_loads_fault)
    from context_switch_stops_at_first_load(1) [OF this] assms show False
      by (simp add: switch_to_frame_def)
  qed
  have allowed: "sti_allowed (call_with_frame ra f k)"
  proof (rule ccontr)
    assume "\<not> sti_allowed (call_with_frame ra f k)"
    then obtain e where "sti_fault (rpl (cs (call_with_frame ra f k)))
        (eflags (call_with_frame ra f k)) = Some e"
      by (rule not_allowed_fault)
    from context_switch_stops_at_sti [OF loads this] assms show False
      by (simp add: switch_to_frame_def context_switch_iret)
  qed
  from loads allowed obtain b where b:
    "context_switch_before_iret (call_with_frame ra f k) = Inr b"
    "esp b = esp k - 40" "mem b (esp k - 40) = eip f" "mem b (esp k - 36) = ucast (cs f)"
    "mem b (esp k - 32) = eflags k AND 0x00FCFFFF" "mem b (esp k - 28) = esp f"
    "mem b (esp k - 24) = ucast (ds f)"
    "cs b = cs k" "ss b = ss k" "ds b = ds f" "es b = ds f" "fs b = ds f" "gs b = ds f"
    "ebx b = ebx k" "esi b = esi k" "edi b = edi k" "eflags b = eflags k OR 0x200"
    "descriptors b = descriptors k"
    by (rule switch_to_frame_before_iret)
  from assms b(1) have i: "iret b = Inr s'"
    by (simp add: switch_to_frame_def context_switch_iret)
  have m: "mem b (esp b) = eip f" "mem b (esp b + 4) = ucast (cs f)"
    "mem b (esp b + 12) = esp f" "mem b (esp b + 16) = ucast (ds f)"
    using b by simp_all
  have g: "mem b (esp b + 8) = eflags k AND 0x00FCFFFF"
    using b by simp
  from iret_completes(1-7) [OF i]
  show "eip s' = eip f" and "cs s' = cs f" and "ebx s' = ebx k" and "esi s' = esi k"
    and "edi s' = edi k" and "rpl (cs k) \<le> rpl (cs f)"
    and "eflags s' = iret_flags (rpl (cs k)) (eflags k OR 0x200) (eflags k AND 0x00FCFFFF)"
    by (simp_all add: m g b ucast_16_32_16)
  have same: "esp s' = esp k - 28 \<and> ss s' = ss k \<and>
      ds s' = ds f \<and> es s' = ds f \<and> fs s' = ds f \<and> gs s' = ds f"
    if "rpl (cs f) = rpl (cs k)"
    using iret_completes(8) [OF i] that by (simp add: m b ucast_16_32_16)
  have outward: "esp s' = esp f \<and> ss s' = ds f \<and>
      ds s' = ds f \<and> es s' = ds f \<and> fs s' = ds f \<and> gs s' = ds f"
    if "rpl (cs f) \<noteq> rpl (cs k)"
  proof -
    from iret_completes(9) [OF i] that
    have *: "esp s' = esp f \<and> ss s' = ds f \<and>
        stack_return_fault (descriptors k) (rpl (cs f)) (ds f) = None \<and>
        ds s' = keep_or_null (descriptors k) (rpl (cs f)) (ds f) \<and>
        es s' = keep_or_null (descriptors k) (rpl (cs f)) (ds f) \<and>
        fs s' = keep_or_null (descriptors k) (rpl (cs f)) (ds f) \<and>
        gs s' = keep_or_null (descriptors k) (rpl (cs f)) (ds f)"
      by (simp add: m b ucast_16_32_16)
    then have "keep_or_null (descriptors k) (rpl (cs f)) (ds f) = ds f"
      by (simp add: stack_ok_keeps_selector)
    with * show ?thesis by simp
  qed
  from same outward show "ds s' = ds f" and "es s' = ds f" and "fs s' = ds f"
    and "gs s' = ds f"
    by blast+
  from same show "rpl (cs f) = rpl (cs k) \<Longrightarrow> esp s' = esp k - 28 \<and> ss s' = ss k"
    by simp
  from outward show "rpl (cs f) \<noteq> rpl (cs k) \<Longrightarrow> esp s' = esp f \<and> ss s' = ds f"
    by simp
qed

lemmas example_state_defs = example_entry_def example_unprivileged_entry_def
  example_kernel_def example_user_frame_def example_kernel_frame_def example_bad_frame_def
  example_descriptors_def

lemma example_entry_loads:
  "data_selector_loads (example_entry v example_user_frame)"
  "data_selector_loads (example_entry v example_kernel_frame)"
  "\<not> data_selector_loads (example_entry v example_bad_frame)"
  by (simp_all add: data_selector_loads_def data_load_fault_def rpl_def call_with_frame_state
      example_state_defs)

lemma example_entry_allowed: "sti_allowed (example_entry v f)"
  by (simp add: sti_allowed_def sti_fault_def rpl_def call_with_frame_state
      example_entry_def example_kernel_def)

lemma example_unprivileged:
  "data_selector_loads example_unprivileged_entry"
  "\<not> sti_allowed example_unprivileged_entry"
  by (simp_all add: data_selector_loads_def data_load_fault_def sti_allowed_def sti_fault_def
      iopl_def rpl_def call_with_frame_state example_state_defs)

lemma example_switch_user:
  "switch_to_frame 0x100000 example_user_frame example_kernel = Inr example_resumed_user"
proof -
  have l: "data_selector_loads (call_with_frame 0x100000 example_user_frame example_kernel)"
    by (simp add: data_selector_loads_def data_load_fault_def rpl_def call_with_frame_state
        example_state_defs)
  have a: "sti_allowed (call_with_frame 0x100000 example_user_frame example_kernel)"
    by (simp add: sti_allowed_def sti_fault_def rpl_def call_with_frame_state
        example_state_defs)
  from context_switch_before_iret_state [OF l a]
  have "\<exists>s'. switch_to_frame 0x100000 example_user_frame example_kernel = Inr s'"
    by (simp add: switch_to_frame_def context_switch_iret call_with_frame_state iret_def
        Let_def log_def code_return_fault_def stack_return_fault_def rpl_def
        example_state_defs)
  then show ?thesis
    by (auto simp: example_resumed_user_def state_of_def)
qed

lemma example_switch_kernel:
  "switch_to_frame 0x100000 example_kernel_frame example_kernel = Inr example_resumed_kernel"
proof -
  have l: "data_selector_loads (call_with_frame 0x100000 example_kernel_frame example_kernel)"
    by (simp add: data_selector_loads_def data_load_fault_def rpl_def call_with_frame_state
        example_state_defs)
  have a: "sti_allowed (call_with_frame 0x100000 example_kernel_frame example_kernel)"
    by (simp add: sti_allowed_def sti_fault_def rpl_def call_with_frame_state
        example_state_defs)
  from context_switch_before_iret_state [OF l a]
  have "\<exists>s'. switch_to_frame 0x100000 example_kernel_frame example_kernel = Inr s'"
    by (simp add: switch_to_frame_def context_switch_iret call_with_frame_state iret_def
        Let_def log_def code_return_fault_def stack_return_fault_def rpl_def
        example_state_defs)
  then show ?thesis
    by (auto simp: example_resumed_kernel_def state_of_def)
qed

section \<open>Symbolic execution of the exit system call\<close>

lemma while_1_never: "while_1 s = None"
proof (cases "while_1 s")
  case None
  then show ?thesis .
next
  case (Some t)
  have "False"
    by (rule while_1.raw_induct [where P = "\<lambda>_ _. False", OF _ Some])
  then show ?thesis ..
qed

lemma sys_exit_to_trap_trace:
  "trace (sys_exit_to_trap process registers s) =
     trace s @ [ProcessExit process (ebx registers), PicEOI 0x80, Sti, SoftInt 0x20]"
  by (simp add: sys_exit_to_trap_def process_exit_def pic_EOI_def STI_def sti_def log_def)

section \<open>Claims about the context switch and the exit system call\<close>

text \<open>
  C1, as stated: every invocation of \<open>context_switch\<close> performs the five steps in order,
  the return being the last. It fails for an invocation whose data selector cannot be
  loaded: with the selector \<open>0x1237\<close>, which addresses no descriptor, the first load of a
  segment register raises a general-protection fault and none of the operations is
  performed. It fails as well for an invocation at level 3 with the I/O privilege level 0:
  \<open>sti\<close> raises a general-protection fault, interrupts are not enabled and \<open>iret\<close> is
  not reached.
\<close>

theorem context_switch_faults_counterexample:
  "(\<exists>s. context_switch (example_entry 0x20 example_bad_frame) = Inl (GP_fault 0x1234, s)) \<and>
   new_events (example_entry 0x20 example_bad_frame)
     (state_of (context_switch (example_entry 0x20 example_bad_frame))) = [] \<and>
   (\<exists>s. context_switch example_unprivileged_entry = Inl (GP_fault 0, s)) \<and>
   new_events example_unprivileged_entry
     (state_of (context_switch example_unprivileged_entry)) =
     [SegLoad DS 0x23, SegLoad ES 0x23, SegLoad FS 0x23, SegLoad GS 0x23,
      Push 0x23, Push 0xBFFFF000, Push 0x2, Push 0x1B, Push 0x08048000,
      Push 0, PicEOI 0]"
proof -
  have "data_load_fault (descriptors (example_entry 0x20 example_bad_frame))
      (rpl (cs (example_entry 0x20 example_bad_frame)))
      (ucast (mem (example_entry 0x20 example_bad_frame)
         (esp (example_entry 0x20 example_bad_frame) + 12))) = Some (GP_fault 0x1234)"
    by (simp add: data_load_fault_def rpl_def call_with_frame_state example_state_defs)
  from context_switch_stops_at_first_load(1) [OF this]
  have a: "\<exists>s. context_switch (example_entry 0x20 example_bad_frame) =
      Inl (GP_fault 0x1234, s)"
    by blast
  have b: "new_events (example_entry 0x20 example_bad_frame)
      (state_of (context_switch (example_entry 0x20 example_bad_frame))) = []"
    by (rule new_events_same [OF context_switch_trace_fault [OF example_entry_loads(3)]])
  have "sti_fault (rpl (cs example_unprivileged_entry)) (eflags example_unprivileged_entry) =
      Some (GP_fault 0)"
    by (simp add: sti_fault_def iopl_def rpl_def call_with_frame_state example_state_defs)
  from context_switch_stops_at_sti [OF example_unprivileged(1) this]
  have c: "\<exists>s. context_switch example_unprivileged_entry = Inl (GP_fault 0, s)"
    by (simp add: context_switch_iret)
  have d: "new_events example_unprivileged_entry
      (state_of (context_switch example_unprivileged_entry)) =
      [SegLoad DS 0x23, SegLoad ES 0x23, SegLoad FS 0x23, SegLoad GS 0x23,
       Push 0x23, Push 0xBFFFF000, Push 0x2, Push 0x1B, Push 0x08048000,
       Push 0, PicEOI 0]"
    using new_events_append [OF context_switch_trace_sti_fault [OF example_unprivileged]]
    by (simp add: call_with_frame_state example_state_defs)
  from a b c d show ?thesis by blast
qed

text \<open>
  C1, amended: every invocation of \<open>context_switch\<close> whose data selector can be loaded,
  at a level at which \<open>sti\<close> is allowed, performs its operations in this order: the four
  data segment selectors are loaded; the return image is built on the stack (stack segment,
  stack pointer, flags, code segment, instruction pointer); \<open>pic_EOI\<close> is called with its
  argument pushed just before; \<open>sti\<close>; \<open>iret\<close>, which is the last operation of the
  routine, whether it completes or stops.
\<close>

theorem context_switch_order:
  assumes "data_selector_loads s" and "sti_allowed s"
  shows "new_events s (state_of (context_switch s)) =
     [SegLoad DS (ucast (mem s (esp s + 12))), SegLoad ES (ucast (mem s (esp s + 12))),
      SegLoad FS (ucast (mem s (esp s + 12))), SegLoad GS (ucast (mem s (esp s + 12)))]
     @ [Push (mem s (esp s + 12)), Push (mem s (esp s + 4)), Push (eflags s AND 0x00FCFFFF),
        Push (mem s (esp s + 16)), Push (mem s (esp s + 8))]
     @ [Push 0, PicEOI 0]
     @ [Sti]
     @ [Iret]"
  by (rule new_events_append) (simp add: context_switch_trace [OF assms])

theorem context_switch_order_witness:
  "data_selector_loads (example_entry 0x20 example_user_frame) \<and>
   sti_allowed (example_entry 0x20 example_user_frame) \<and>
   new_events (example_entry 0x20 example_user_frame)
     (state_of (context_switch (example_entry 0x20 example_user_frame))) =
     [SegLoad DS 0x23, SegLoad ES 0x23, SegLoad FS 0x23, SegLoad GS 0x23,
      Push 0x23, Push 0xBFFFF000, Push 0x2, Push 0x1B, Push 0x08048000,
      Push 0, PicEOI 0, Sti, Iret]"
proof -
  have h: "data_selector_loads (example_entry 0x20 example_user_frame)"
    by (rule example_entry_loads)
  have a: "sti_allowed (example_entry 0x20 example_user_frame)"
    by (rule example_entry_allowed)
  show ?thesis
    using h a context_switch_order [OF h a]
    by (simp add: call_with_frame_state example_state_defs)
qed

text \<open>
  C2, as stated: \<open>pic_EOI\<close> is called once, before \<open>sti\<close>, on a line derived from the entry
  vector and never from a constant of the handler. The last part fails: entered through
  vector \<open>0x20\<close> or through vector \<open>0x21\<close>, two different interrupt lines,
  \<open>context_switch\<close> acknowledges the same line 0, the immediate operand of its
  \<open>push $0x0\<close>; no derivation of the line from the vector that tells two vectors apart
  gives the line that is acknowledged.
\<close>

theorem ack_line_ignores_vector:
  "eoi_lines (new_events (example_entry 0x20 example_user_frame)
      (state_of (context_switch (example_entry 0x20 example_user_frame)))) = [0] \<and>
   eoi_lines (new_events (example_entry 0x21 example_user_frame)
      (state_of (context_switch (example_entry 0x21 example_user_frame)))) = [0] \<and>
   \<not> (\<exists>line_of :: 8 word \<Rightarrow> 32 word.
        (\<exists>v v'. line_of v \<noteq> line_of v') \<and>
        (\<forall>v. eoi_lines (new_events (example_entry v example_user_frame)
                (state_of (context_switch (example_entry v example_user_frame)))) =
              [line_of v]))"
  by (simp add: new_events_append [OF context_switch_trace] example_entry_loads
        example_entry_allowed) metis

text \<open>
  C2, amended: in an invocation of \<open>context_switch\<close> whose data selector can be loaded,
  and in every invocation of \<open>sys_exit\<close>, \<open>pic_EOI\<close> is called exactly once, and not
  after \<open>sti\<close>; the line is a constant of the routine, 0 in \<open>context_switch\<close> and
  \<open>0x80\<close> in \<open>sys_exit\<close>, whatever the state and the arguments. In \<open>sys_exit\<close>, and in
  \<open>context_switch\<close> at a level at which \<open>sti\<close> is allowed, \<open>sti\<close> follows; at
  another level \<open>context_switch\<close> stops after the call, interrupts not enabled. When the
  data selector cannot be loaded, \<open>context_switch\<close> does not call \<open>pic_EOI\<close> at all.
\<close>

theorem ack_once_before_sti_constant_line:
  "(data_selector_loads s \<longrightarrow>
      eoi_lines (new_events s (state_of (context_switch s))) = [0] \<and>
      eoi_lines (before_sti (new_events s (state_of (context_switch s)))) = [0]) \<and>
   (data_selector_loads s \<and> sti_allowed s \<longrightarrow>
      Sti \<in> set (new_events s (state_of (context_switch s)))) \<and>
   (data_selector_loads s \<and> \<not> sti_allowed s \<longrightarrow>
      Sti \<notin> set (new_events s (state_of (context_switch s)))) \<and>
   (\<not> data_selector_loads s \<longrightarrow>
      eoi_lines (new_events s (state_of (context_switch s))) = []) \<and>
   eoi_lines (new_events s (sys_exit_to_trap process registers s)) = [0x80] \<and>
   eoi_lines (before_sti (new_events s (sys_exit_to_trap process registers s))) = [0x80] \<and>
   Sti \<in> set (new_events s (sys_exit_to_trap process registers s))"
proof -
  have a: "eoi_lines (new_events s (state_of (context_switch s))) = [0] \<and>
      eoi_lines (before_sti (new_events s (state_of (context_switch s)))) = [0] \<and>
      Sti \<in> set (new_events s (state_of (context_switch s)))"
    if "data_selector_loads s" "sti_allowed s"
    by (simp add: new_events_append [OF context_switch_trace [OF that]] before_sti_def)
  have b: "eoi_lines (new_events s (state_of (context_switch s))) = [0] \<and>
      eoi_lines (before_sti (new_events s (state_of (context_switch s)))) = [0] \<and>
      Sti \<notin> set (new_events s (state_of (context_switch s)))"
    if "data_selector_loads s" "\<not> sti_allowed s"
    by (simp add: new_events_append [OF context_switch_trace_sti_fault [OF that]]
        before_sti_def)
  have c: "eoi_lines (new_events s (state_of (context_switch s))) = []"
    if "\<not> data_selector_loads s"
    by (simp add: new_events_same [OF context_switch_trace_fault [OF that]])
  have d: "eoi_lines (new_events s (sys_exit_to_trap process registers s)) = [0x80] \<and>
      eoi_lines (before_sti (new_events s (sys_exit_to_trap process registers s))) = [0x80] \<and>
      Sti \<in> set (new_events s (sys_exit_to_trap process registers s))"
    by (simp add: new_events_append [OF sys_exit_to_trap_trace] before_sti_def)
  from a b c d show ?thesis by blast
qed

theorem ack_once_before_sti_constant_line_witness:
  "data_selector_loads (example_entry 0x21 example_user_frame) \<and>
   sti_allowed (example_entry 0x21 example_user_frame) \<and>
   eoi_lines (new_events (example_entry 0x21 example_user_frame)
      (state_of (context_switch (example_entry 0x21 example_user_frame)))) = [0] \<and>
   eoi_lines (before_sti (new_events (example_entry 0x21 example_user_frame)
      (state_of (context_switch (example_entry 0x21 example_user_frame))))) = [0] \<and>
   Sti \<in> set (new_events (example_entry 0x21 example_user_frame)
      (state_of (context_switch (example_entry 0x21 example_user_frame)))) \<and>
   \<not> data_selector_loads (example_entry 0x21 example_bad_frame) \<and>
   eoi_lines (new_events (example_entry 0x21 example_bad_frame)
      (state_of (context_switch (example_entry 0x21 example_bad_frame)))) = [] \<and>
   data_selector_loads example_unprivileged_entry \<and>
   \<not> sti_allowed example_unprivileged_entry \<and>
   eoi_lines (new_events example_unprivileged_entry
      (state_of (context_switch example_unprivileged_entry))) = [0] \<and>
   Sti \<notin> set (new_events example_unprivileged_entry
      (state_of (context_switch example_unprivileged_entry)))"
  using ack_once_before_sti_constant_line [of "example_entry 0x21 example_user_frame"]
        ack_once_before_sti_constant_line [of "example_entry 0x21 example_bad_frame"]
        ack_once_before_sti_constant_line [of example_unprivileged_entry]
        example_entry_loads [of "0x21"] example_entry_allowed [of "0x21" example_user_frame]
        example_unprivileged
  by blast

text \<open>
  C3. For every process and register frame, \<open>sys_exit\<close> calls \<open>process_exit\<close> with the
  process and the \<open>ebx\<close> field of the frame, then \<open>pic_EOI\<close>, then enables interrupts,
  then takes the software interrupt \<open>0x20\<close>, in this order and nothing else.
\<close>

theorem sys_exit_order:
  "new_events s (sys_exit_to_trap process registers s) =
     [ProcessExit process (ebx registers), PicEOI 0x80, Sti, SoftInt 0x20]"
  by (simp add: new_events_append [OF sys_exit_to_trap_trace])

text \<open>
  C4, as stated: switching to a frame and suspending again reproduces the frame. It fails
  for the frame of the example user process: the switch completes, but
  \<open>context_switch\<close> receives the stack pointer, the instruction pointer and two selectors
  only, so that for instance \<open>ebx\<close> is still the caller's 0 and not the frame's 7.
\<close>

theorem round_trip_counterexample:
  "switch_to_frame 0x100000 example_user_frame example_kernel = Inr example_resumed_user \<and>
   suspend example_resumed_user \<noteq> example_user_frame \<and>
   ebx (suspend example_resumed_user) = 0 \<and> ebx example_user_frame = 7"
proof -
  have "ebx (suspend example_resumed_user) = 0"
    using switch_to_frame_completes(4) [OF example_switch_user]
    by (simp add: suspend_def example_kernel_def)
  moreover have "ebx example_user_frame = 7"
    by (simp add: example_user_frame_def)
  ultimately show ?thesis
    using example_switch_user by auto
qed

text \<open>
  C4, amended: whenever a switch to a frame completes, suspending again reproduces the
  instruction pointer and the code selector of the frame, and \<open>ds\<close>, \<open>es\<close>, \<open>fs\<close>
  and \<open>gs\<close> hold the frame's \<open>ds\<close>. When the frame is of a less privileged level than
  the caller, the stack pointer of the frame is reproduced as well and \<open>ss\<close> holds the
  frame's \<open>ds\<close>; at the caller's level the stack pointer and \<open>ss\<close> are the caller's
  (the stack pointer 28 bytes below its value at the call). The general-purpose registers
  and the flags are not taken from the frame: \<open>ebx\<close>, \<open>esi\<close> and \<open>edi\<close> are the
  caller's, and the flags are what \<open>iret\<close> loads from an image of the caller's flags.
\<close>

theorem round_trip_control_state_only:
  assumes "switch_to_frame ra f k = Inr s'"
  shows "eip (suspend s') = eip f \<and> cs (suspend s') = cs f \<and>
         ds (suspend s') = ds f \<and> es (suspend s') = ds f \<and>
         fs (suspend s') = ds f \<and> gs (suspend s') = ds f \<and>
         ebx (suspend s') = ebx k \<and> esi (suspend s') = esi k \<and> edi (suspend s') = edi k \<and>
         eflags (suspend s') =
           iret_flags (rpl (cs k)) (eflags k OR 0x200) (eflags k AND 0x00FCFFFF) \<and>
         return_image (call_with_frame ra f k) =
           [eip f, ucast (cs f), eflags k AND 0x00FCFFFF, esp f, ucast (ds f)] \<and>
         rpl (cs k) \<le> rpl (cs f) \<and>
         (rpl (cs k) < rpl (cs f) \<longrightarrow> esp (suspend s') = esp f \<and> ss (suspend s') = ds f) \<and>
         (rpl (cs f) = rpl (cs k) \<longrightarrow>
            esp (suspend s') = esp k - 28 \<and> ss (suspend s') = ss k)"
proof -
  note c = switch_to_frame_completes [OF assms]
  have "return_image (call_with_frame ra f k) =
      [eip f, ucast (cs f), eflags k AND 0x00FCFFFF, esp f, ucast (ds f)]"
    using return_image_eq [OF c(1)] by (simp add: call_with_frame_state)
  moreover have "rpl (cs k) < rpl (cs f) \<Longrightarrow> rpl (cs f) \<noteq> rpl (cs k)"
    by auto
  ultimately show ?thesis
    using c by (simp add: suspend_def)
qed

theorem round_trip_control_state_only_witness:
  "switch_to_frame 0x100000 example_user_frame example_kernel = Inr example_resumed_user \<and>
   rpl (cs example_kernel) < rpl (cs example_user_frame) \<and>
   eip (suspend example_resumed_user) = 0x08048000 \<and>
   cs (suspend example_resumed_user) = 0x1B \<and>
   esp (suspend example_resumed_user) = 0xBFFFF000 \<and>
   ss (suspend example_resumed_user) = 0x23 \<and>
   ebx (suspend example_resumed_user) = 0 \<and>
   eflags (suspend example_resumed_user) = 0x2 \<and>
   switch_to_frame 0x100000 example_kernel_frame example_kernel = Inr example_resumed_kernel \<and>
   rpl (cs example_kernel_frame) = rpl (cs example_kernel) \<and>
   eip (suspend example_resumed_kernel) = 0x101000 \<and>
   cs (suspend example_resumed_kernel) = 0x08 \<and>
   esp (suspend example_resumed_kernel) = 0x8FE4 \<and>
   ss (suspend example_resumed_kernel) = 0x10"
proof -
  have l: "rpl (cs example_kernel) < rpl (cs example_user_frame)"
          "rpl (cs example_kernel_frame) = rpl (cs example_kernel)"
    by (simp_all add: rpl_def example_state_defs)
  show ?thesis
    using l example_switch_user example_switch_kernel
      round_trip_control_state_only [OF example_switch_user]
      round_trip_control_state_only [OF example_switch_kernel]
    by (simp add: iret_flags_def iopl_def rpl_def example_state_defs)
qed

text \<open>
  C5, as stated: the stack segment and stack pointer pair is in the return image if and
  only if the destination privilege level differs from the current one. It fails when the
  kernel (level 0) switches to the frame of a kernel thread (level 0): the pair is pushed
  all the same.
\<close>

theorem stack_pair_counterexample:
  "\<not> (stack_pair_pushed (example_entry 0x20 example_kernel_frame) \<longleftrightarrow>
      destination_level (example_entry 0x20 example_kernel_frame) \<noteq>
      current_level (example_entry 0x20 example_kernel_frame))"
proof -
  have "stack_pair_pushed (example_entry 0x20 example_kernel_frame)"
    by (simp add: stack_pair_pushed_def return_image_eq [OF example_entry_loads(2)])
  moreover have "destination_level (example_entry 0x20 example_kernel_frame) =
      current_level (example_entry 0x20 example_kernel_frame)"
    by (simp add: destination_level_def current_level_def call_with_frame_state rpl_def
        example_state_defs)
  ultimately show ?thesis by simp
qed

text \<open>
  C5, amended: whenever the data selector can be loaded, the return image that
  \<open>context_switch\<close> builds has five doublewords, from the top of the stack: instruction
  pointer, code selector, flags, stack pointer and stack segment selector. The pair is
  pushed whatever the two privilege levels are. When the data selector cannot be loaded
  the routine stops before it pushes anything.
\<close>

theorem stack_pair_always_pushed:
  "(data_selector_loads s \<longrightarrow>
      return_image s =
        [mem s (esp s + 8), mem s (esp s + 16), eflags s AND 0x00FCFFFF,
         mem s (esp s + 4), mem s (esp s + 12)] \<and>
      stack_pair_pushed s) \<and>
   (\<not> data_selector_loads s \<longrightarrow> return_image s = [])"
  by (simp add: return_image_eq return_image_fault stack_pair_pushed_def)

theorem stack_pair_always_pushed_witness:
  "data_selector_loads (example_entry 0x20 example_kernel_frame) \<and>
   return_image (example_entry 0x20 example_kernel_frame) =
     [0x101000, 0x08, 0x2, 0xA000, 0x10] \<and>
   stack_pair_pushed (example_entry 0x20 example_kernel_frame) \<and>
   \<not> data_selector_loads (example_entry 0x20 example_bad_frame) \<and>
   return_image (example_entry 0x20 example_bad_frame) = []"
proof -
  have h: "data_selector_loads (example_entry 0x20 example_kernel_frame)"
          "\<not> data_selector_loads (example_entry 0x20 example_bad_frame)"
    by (rule example_entry_loads)+
  from h stack_pair_always_pushed [of "example_entry 0x20 example_kernel_frame"]
       stack_pair_always_pushed [of "example_entry 0x20 example_bad_frame"]
  have "return_image (example_entry 0x20 example_kernel_frame) =
      [mem (example_entry 0x20 example_kernel_frame)
         (esp (example_entry 0x20 example_kernel_frame) + 8),
       mem (example_entry 0x20 example_kernel_frame)
         (esp (example_entry 0x20 example_kernel_frame) + 16),
       eflags (example_entry 0x20 example_kernel_frame) AND 0x00FCFFFF,
       mem (example_entry 0x20 example_kernel_frame)
         (esp (example_entry 0x20 example_kernel_frame) + 4),
       mem (example_entry 0x20 example_kernel_frame)
         (esp (example_entry 0x20 example_kernel_frame) + 12)]"
    and p: "stack_pair_pushed (example_entry 0x20 example_kernel_frame)"
    and e: "return_image (example_entry 0x20 example_bad_frame) = []"
    by blast+
  then have "return_image (example_entry 0x20 example_kernel_frame) =
      [0x101000, 0x08, 0x2, 0xA000, 0x10]"
    by (simp add: call_with_frame_state example_state_defs)
  with h p e show ?thesis by blast
qed

text \<open>
  C6. For every process and register frame, \<open>sys_exit\<close> calls \<open>process_exit\<close> exactly
  once, with the process and the \<open>ebx\<close> field of the frame; with 7 in \<open>ebx\<close>, the one
  call has the arguments process and 7.
\<close>

theorem sys_exit_calls_process_exit_once:
  "process_exit_calls (new_events s (sys_exit_to_trap process registers s)) =
     [(process, ebx registers)] \<and>
   process_exit_calls (new_events s (sys_exit_to_trap process (registers\<lparr>ebx := 7\<rparr>) s)) =
     [(process, 7)]"
  by (simp add: new_events_append [OF sys_exit_to_trap_trace])

text \<open>
  C7. \<open>sys_exit\<close> never returns to its caller. Either the software interrupt never comes
  back, and the last state is the one at the trap; or it comes back with a state \<open>s'\<close>,
  the loop is entered and never left, and \<open>s'\<close> stays the last state: nothing is executed
  after the loop.
\<close>

theorem sys_exit_never_returns:
  "sys_exit resume process registers s \<noteq> Returns t \<and>
   sys_exit resume process registers s =
     (case resume (sys_exit_to_trap process registers s) of
        None \<Rightarrow> Never (sys_exit_to_trap process registers s)
      | Some s' \<Rightarrow> Never s')"
  by (simp add: sys_exit_def Let_def while_1_never split: option.split)

section \<open>Rounding with bit masks\<close>

lemma and_not_mask_push_drop:
  "(p :: 32 word) AND NOT (mask k) = push_bit k (drop_bit k p)"
  by (rule bit_eqI) (auto simp: bit_simps)

lemma unat_pow2:
  assumes "k < 32"
  shows "unat ((2::32 word) ^ k) = 2 ^ k"
proof -
  have "unat ((2::32 word) ^ k) = unat (push_bit k (1::32 word))"
    by simp
  also have "\<dots> = take_bit LENGTH(32) (push_bit k (unat (1::32 word)))"
    by (rule unsigned_push_bit_eq)
  also have "\<dots> = take_bit 32 ((2::nat) ^ k)"
    by simp
  also have "\<dots> = 2 ^ k"
    using assms by (simp add: take_bit_nat_eq_self)
  finally show ?thesis .
qed

lemma unat_push_drop:
  "unat (push_bit k (drop_bit k (p :: 32 word))) = (unat p div 2 ^ k) * 2 ^ k"
proof -
  have le: "(unat p div 2 ^ k) * 2 ^ k \<le> unat p"
    by simp
  have lt: "unat p < 2 ^ 32"
    using unsigned_less [of p] by simp
  have dr: "unat (drop_bit k p) = unat p div 2 ^ k"
    by (rule trans [OF unat_drop_bit_eq drop_bit_eq_div])
  have "unat (push_bit k (drop_bit k p)) =
          take_bit LENGTH(32) (push_bit k (unat (drop_bit k p)))"
    by (rule unsigned_push_bit_eq)
  also have "\<dots> = take_bit 32 ((unat p div 2 ^ k) * 2 ^ k)"
    by (subst dr) (simp add: push_bit_eq_mult)
  also have "\<dots> = (unat p div 2 ^ k) * 2 ^ k"
    using le lt by (intro take_bit_nat_eq_self) linarith
  finally show ?thesis .
qed

lemma round_down_mod:
  fixes x c n :: nat
  assumes "c dvd n"
  shows "(x mod n) div c * c = (x div c * c) mod n"
proof -
  have a: "x mod n mod c = x mod c"
    using assms by (rule mod_mod_cancel)
  have b: "(x mod n) div c * c = x mod n - x mod c"
    using a by (metis minus_mod_eq_div_mult)
  have c: "x div c * c = x - x mod c"
    by (metis minus_mod_eq_div_mult)
  have d: "x mod c \<le> x mod n"
    using a by (metis mod_less_eq_dividend)
  have e: "x - x mod c = n * (x div n) + (x mod n - x mod c)"
    using d by (metis Nat.add_diff_assoc div_mult_mod_eq mult.commute)
  have "(x - x mod c) mod n = (x mod n - x mod c) mod n"
    by (subst e) simp
  also have "\<dots> = x mod n - x mod c"
  proof (cases "n = 0")
    case True
    then show ?thesis by simp
  next
    case False
    then have "x mod n < n" by simp
    then have "x mod n - x mod c < n" by simp
    then show ?thesis by simp
  qed
  finally show ?thesis by (simp only: b c)
qed

text \<open>
  The expression \<open>(size + 7) & ~7\<close> of the loop is the size rounded up to a multiple of
  8, modulo \<open>2 ^ 32\<close>.
\<close>

lemma mask_round_up_8:
  "((sz :: 32 word) + 7) AND NOT 7 = of_nat (round_up_8 (unat sz))"
proof (rule unsigned_word_eqI [where ?'a = nat])
  have m: "(7 :: 32 word) = mask 3"
    by (simp add: mask_eq_exp_minus_1)
  have "unat ((sz + 7) AND NOT 7) = unat (push_bit 3 (drop_bit 3 (sz + 7)))"
    by (simp only: m and_not_mask_push_drop)
  also have "\<dots> = unat (sz + 7) div 2 ^ 3 * 2 ^ 3"
    by (rule unat_push_drop)
  also have "\<dots> = ((unat sz + 7) mod 2 ^ 32) div 8 * 8"
    by (simp add: unat_word_ariths)
  also have "\<dots> = ((unat sz + 7) div 8 * 8) mod 2 ^ 32"
    by (rule round_down_mod) simp
  also have "\<dots> = unat (of_nat (round_up_8 (unat sz)) :: 32 word)"
    by (simp only: unat_of_nat round_up_8_def) simp
  finally show "unat ((sz + 7) AND NOT 7) = unat (of_nat (round_up_8 (unat sz)) :: 32 word)" .
qed

lemma next_tag_round_up:
  "next_tag m p = p + of_nat (round_up_8 (unat (tag_size (m p))))"
  by (simp only: next_tag_def mask_round_up_8)

section \<open>The tag loop on a tag sequence\<close>

text \<open>
  Where the size of a tag fits the distance to the next tag, the pointer arithmetic of the
  loop, which is modulo \<open>2 ^ 32\<close>, arrives at the next tag.
\<close>

lemma next_tag_fits:
  assumes "m a = t" and "unat a + round_up_8 (unat (tag_size t)) = unat b"
  shows "next_tag m a = b"
proof -
  have "next_tag m a = a + of_nat (round_up_8 (unat (tag_size t)))"
    by (simp only: next_tag_round_up assms(1))
  also have "\<dots> = of_nat (unat a) + of_nat (round_up_8 (unat (tag_size t)))"
    by simp
  also have "\<dots> = of_nat (unat a + round_up_8 (unat (tag_size t)))"
    by (simp only: of_nat_add)
  also have "\<dots> = b"
    by (simp only: assms(2)) simp
  finally show ?thesis .
qed

lemma read_loop_tag_list:
  "stored_tags m p ts \<Longrightarrow> sizes_fit ts \<Longrightarrow>
     read_boot_tags_loop m p data = Some (tags_result ts data)"
proof (induction m p ts arbitrary: data rule: stored_tags.induct)
  case (1 m p)
  then show ?case by simp
next
  case (2 m p a t)
  then show ?case
    by (subst read_boot_tags_loop.simps) auto
next
  case (3 m p a t b u ts)
  from "3.prems" have n: "next_tag m a = b"
    by (auto intro: next_tag_fits)
  from "3.prems" have "read_boot_tags_loop m b (switch_tag a t data) =
      Some (tags_result ((b, u) # ts) (switch_tag a t data))"
    by (intro "3.IH") simp_all
  with "3.prems" n show ?case
    by (subst read_boot_tags_loop.simps) auto
qed

lemma switch_tag_module_bootdev: "is_module_or_bootdev t \<Longrightarrow> switch_tag a t data = data"
  by (auto simp: is_module_or_bootdev_def switch_tag_def)

lemma tags_result_without:
  "tags_result (without_module_bootdev ts) data = tags_result ts data"
  by (induction ts arbitrary: data)
     (auto simp: without_module_bootdev_def switch_tag_module_bootdev is_module_or_bootdev_def)

lemma string_tags_without: "string_tags (without_module_bootdev ts) = string_tags ts"
  by (induction ts)
     (auto simp: string_tags_def without_module_bootdev_def is_string_tag_def
        is_module_or_bootdev_def)

text \<open>
  The memory sizes of the result depend on the tags only, not on their addresses; the
  whole result depends on the tags and on the addresses of the tags that hold a string.
\<close>

lemma tags_result_meminfo:
  "tags_of ts = tags_of us \<Longrightarrow> mem_lower d = mem_lower e \<Longrightarrow> mem_upper d = mem_upper e \<Longrightarrow>
     mem_lower (tags_result ts d) = mem_lower (tags_result us e) \<and>
     mem_upper (tags_result ts d) = mem_upper (tags_result us e)"
proof (induction ts arbitrary: us d e)
  case Nil
  then show ?case by (simp add: tags_of_def)
next
  case (Cons x ts)
  from Cons.prems(1) obtain y us' where us: "us = y # us'" "snd x = snd y"
    "tags_of ts = tags_of us'"
    by (auto simp: tags_of_def)
  obtain a t where x: "x = (a, t)" by (cases x)
  with us obtain b where y: "y = (b, t)" by (cases y) auto
  have "mem_lower (switch_tag a t d) = mem_lower (switch_tag b t e) \<and>
        mem_upper (switch_tag a t d) = mem_upper (switch_tag b t e)"
    using Cons.prems(2,3) by (simp add: switch_tag_def split: multiboot_tag_type.split)
  with Cons.IH [OF us(3)] Cons.prems(2,3) show ?case
    by (simp add: us x y)
qed

lemma tags_result_strings:
  "tags_of ts = tags_of us \<Longrightarrow> string_tags ts = string_tags us \<Longrightarrow>
     tags_result ts d = tags_result us d"
proof (induction ts arbitrary: us d)
  case Nil
  then show ?case by (simp add: tags_of_def)
next
  case (Cons x ts)
  from Cons.prems(1) obtain y us' where us: "us = y # us'" "snd x = snd y"
    "tags_of ts = tags_of us'"
    by (auto simp: tags_of_def)
  obtain a t where x: "x = (a, t)" by (cases x)
  with us obtain b where y: "y = (b, t)" by (cases y) auto
  show ?case
  proof (cases "is_string_tag t")
    case True
    with Cons.prems(2) have "a = b" "string_tags ts = string_tags us'"
      by (simp_all add: string_tags_def us x y)
    with Cons.IH [OF us(3)] show ?thesis
      by (simp add: us x y)
  next
    case False
    with Cons.prems(2) have s: "string_tags ts = string_tags us'"
      by (simp add: string_tags_def us x y)
    from False have "switch_tag a t d = switch_tag b t d"
      by (simp add: switch_tag_def is_string_tag_def split: multiboot_tag_type.split)
    with Cons.IH [OF us(3) s] show ?thesis
      by (simp add: us x y)
  qed
qed

text \<open>
  A tag that is not \<open>END\<close> and whose rounded size is 0 modulo \<open>2 ^ 32\<close> holds the loop
  for ever: the pointer does not move and the loop does not return. A size field of 0 is
  such a size, and so is \<open>0xFFFFFFFF\<close>.
\<close>

lemma stuck_loop_never:
  assumes "tag_type (m p) \<noteq> MULTIBOOT_TAG_TYPE_END" "next_tag m p = p"
  shows "read_boot_tags_loop m p data = None"
proof (cases "read_boot_tags_loop m p data")
  case None
  then show ?thesis .
next
  case (Some r)
  have "\<not> (tag_type (m p) \<noteq> MULTIBOOT_TAG_TYPE_END \<and> next_tag m p = p)"
    by (rule read_boot_tags_loop.raw_induct
          [where P = "\<lambda>m p data r. \<not> (tag_type (m p) \<noteq> MULTIBOOT_TAG_TYPE_END \<and> next_tag m p = p)",
           OF _ Some])
       (fastforce split: if_splits)
  with assms show ?thesis by simp
qed

lemmas example_tags_defs = example_cmdline_def example_meminfo_def example_module_def
  example_bootdev_def example_end_def example_stuck_tag_def

lemma size_zero_never:
  "read_boot_tags (example_stuck_memory 0) 0x10000 = None"
  by (simp add: read_boot_tags_def stuck_loop_never example_stuck_memory_def next_tag_def
       example_tags_defs)

lemma size_near_wrap_never:
  "read_boot_tags (example_stuck_memory 0xFFFFFFFF) 0x10000 = None"
  by (simp add: read_boot_tags_def stuck_loop_never example_stuck_memory_def next_tag_def
       example_tags_defs)

text \<open>
  In a tag sequence whose sizes fit, every tag that is not \<open>END\<close> has a size between 1
  and \<open>0xFFFFFFF8\<close>, and the loop advances by the rounded size without wrapping.
\<close>

lemma round_up_8_bounds:
  assumes "0 < round_up_8 n" and "round_up_8 n < 2 ^ 32"
  shows "1 \<le> n" and "n \<le> 4294967288"
  using assms by (simp_all add: round_up_8_def)

lemma fitting_tag_advance:
  assumes "stored_tags m p ts" and "sizes_fit ts" and "(a, t) \<in> set ts"
    and "tag_type t \<noteq> MULTIBOOT_TAG_TYPE_END"
  shows "1 \<le> unat (tag_size t) \<and> unat (tag_size t) \<le> 4294967288 \<and>
         unat (next_tag m a) = unat a + round_up_8 (unat (tag_size t))"
  using assms
proof (induction m p ts rule: stored_tags.induct)
  case (1 m p)
  then show ?case by simp
next
  case (2 m p a' t')
  then show ?case by auto
next
  case (3 m p a' t' b u ts)
  show ?case
  proof (cases "(a, t) = (a', t')")
    case True
    from "3.prems"(1,2) have f: "unat a' + round_up_8 (unat (tag_size t')) = unat b"
      and l: "unat a' < unat b" and mt: "m a' = t'"
      by auto
    have "unat b < 2 ^ 32"
      using unsigned_less [of b] by simp
    with f l have "0 < round_up_8 (unat (tag_size t'))"
      "round_up_8 (unat (tag_size t')) < 2 ^ 32"
      by simp_all
    then have "1 \<le> unat (tag_size t')" "unat (tag_size t') \<le> 4294967288"
      by (rule round_up_8_bounds)+
    moreover have "next_tag m a' = b"
      using mt f by (rule next_tag_fits)
    ultimately show ?thesis
      using True f by simp
  next
    case False
    with "3.prems" have "(a, t) \<in> set ((b, u) # ts)" by auto
    with "3.prems" show ?thesis
      by (intro "3.IH") simp_all
  qed
qed

lemma example_boot_tag_lists:
  "tag_list example_boot_memory (0x10000 + 8) example_boot_tags"
  "tag_list example_boot_memory_stripped (0x10000 + 8) example_boot_tags_stripped"
  "tag_list example_module_first (0x10000 + 8) example_module_first_tags"
  "tag_list example_cmdline_first (0x10000 + 8) example_cmdline_first_tags"
  by (simp_all add: tag_list_def round_up_8_def example_tags_defs
      example_boot_memory_def example_boot_tags_def
      example_boot_memory_stripped_def example_boot_tags_stripped_def
      example_module_first_def example_module_first_tags_def
      example_cmdline_first_def example_cmdline_first_tags_def)

lemma read_boot_tags_tag_list:
  "tag_list m (ptr + 8) ts \<Longrightarrow> read_boot_tags m ptr = Some (tags_result ts zero_boot_info)"
  by (simp add: tag_list_def read_boot_tags_def zero_boot_info_def read_loop_tag_list)

section \<open>Claims about the boot tags\<close>

text \<open>
  C8, as stated: the \<open>boot_info_t\<close> returned for a tag list is identical to the one
  returned for the same list with all \<open>MODULE\<close> and \<open>BOOTDEV\<close> tags removed. It fails
  for a module followed by a command line: \<open>cmdline\<close> is the address of the string inside
  the command-line tag, \<open>0x10020\<close> behind the module and \<open>0x10010\<close> once the module is
  removed and the command line has taken its place.
\<close>

theorem module_removed_counterexample:
  "tag_list example_module_first (0x10000 + 8) example_module_first_tags \<and>
   tag_list example_cmdline_first (0x10000 + 8) example_cmdline_first_tags \<and>
   tags_of example_cmdline_first_tags =
     tags_of (without_module_bootdev example_module_first_tags) \<and>
   read_boot_tags example_module_first 0x10000 =
     Some \<lparr>cmdline = 0x10020, loader_name = 0, mem_lower = 0, mem_upper = 0\<rparr> \<and>
   read_boot_tags example_cmdline_first 0x10000 =
     Some \<lparr>cmdline = 0x10010, loader_name = 0, mem_lower = 0, mem_upper = 0\<rparr> \<and>
   read_boot_tags example_cmdline_first 0x10000 \<noteq> read_boot_tags example_module_first 0x10000"
proof -
  have w: "tags_of example_cmdline_first_tags =
      tags_of (without_module_bootdev example_module_first_tags)"
    by (simp add: tags_of_def without_module_bootdev_def is_module_or_bootdev_def
        example_cmdline_first_tags_def example_module_first_tags_def example_tags_defs)
  have a: "read_boot_tags example_module_first 0x10000 =
      Some \<lparr>cmdline = 0x10020, loader_name = 0, mem_lower = 0, mem_upper = 0\<rparr>"
    using read_boot_tags_tag_list [OF example_boot_tag_lists(3)]
    by (simp add: zero_boot_info_def switch_tag_def example_module_first_tags_def
        example_tags_defs)
  have b: "read_boot_tags example_cmdline_first 0x10000 =
      Some \<lparr>cmdline = 0x10010, loader_name = 0, mem_lower = 0, mem_upper = 0\<rparr>"
    using read_boot_tags_tag_list [OF example_boot_tag_lists(4)]
    by (simp add: zero_boot_info_def switch_tag_def example_cmdline_first_tags_def
        example_tags_defs)
  have "read_boot_tags example_cmdline_first 0x10000 \<noteq>
      read_boot_tags example_module_first 0x10000"
    by (simp add: a b)
  with w a b example_boot_tag_lists(3,4) show ?thesis by blast
qed

text \<open>
  C8, amended: \<open>MODULE\<close> and \<open>BOOTDEV\<close> tags are ignored by \<open>read_boot_tags\<close>: for
  every tag list, the \<open>boot_info_t\<close> returned is the one that the loop computes from the
  other tags alone, each at its address. For the same list with all \<open>MODULE\<close> and
  \<open>BOOTDEV\<close> tags removed, \<open>mem_lower\<close> and \<open>mem_upper\<close> of the result are
  identical; \<open>cmdline\<close> and \<open>loader_name\<close> are addresses inside the tags that hold a
  string, and the whole result is identical when these tags are at the same addresses in
  both lists.
\<close>

theorem module_bootdev_ignored:
  assumes "tag_list m (ptr + 8) ts"
      and "tag_list m' (ptr' + 8) ts'"
      and "tags_of ts' = tags_of (without_module_bootdev ts)"
  shows "\<exists>d d'. read_boot_tags m ptr = Some d \<and> read_boot_tags m' ptr' = Some d' \<and>
           d = tags_result (without_module_bootdev ts) zero_boot_info \<and>
           mem_lower d' = mem_lower d \<and> mem_upper d' = mem_upper d \<and>
           (string_tags ts' = string_tags ts \<longrightarrow> d' = d)"
proof -
  let ?d = "tags_result ts zero_boot_info" and ?d' = "tags_result ts' zero_boot_info"
  have r: "read_boot_tags m ptr = Some ?d" "read_boot_tags m' ptr' = Some ?d'"
    using assms(1,2) by (simp_all add: read_boot_tags_tag_list)
  have w: "?d = tags_result (without_module_bootdev ts) zero_boot_info"
    by (simp add: tags_result_without)
  have "mem_lower ?d' = mem_lower (tags_result (without_module_bootdev ts) zero_boot_info) \<and>
        mem_upper ?d' = mem_upper (tags_result (without_module_bootdev ts) zero_boot_info)"
    using assms(3) by (rule tags_result_meminfo) simp_all
  then have ml: "mem_lower ?d' = mem_lower ?d \<and> mem_upper ?d' = mem_upper ?d"
    by (simp add: tags_result_without)
  have "?d' = ?d" if "string_tags ts' = string_tags ts"
  proof -
    from that have "string_tags ts' = string_tags (without_module_bootdev ts)"
      by (simp add: string_tags_without)
    with assms(3) have "?d' = tags_result (without_module_bootdev ts) zero_boot_info"
      by (rule tags_result_strings)
    then show ?thesis by (simp add: tags_result_without)
  qed
  with r w ml show ?thesis by blast
qed

theorem module_bootdev_ignored_witness:
  "tag_list example_boot_memory (0x10000 + 8) example_boot_tags \<and>
   tag_list example_boot_memory_stripped (0x10000 + 8) example_boot_tags_stripped \<and>
   tags_of example_boot_tags_stripped = tags_of (without_module_bootdev example_boot_tags) \<and>
   string_tags example_boot_tags_stripped = string_tags example_boot_tags \<and>
   read_boot_tags example_boot_memory_stripped 0x10000 =
     read_boot_tags example_boot_memory 0x10000 \<and>
   read_boot_tags example_boot_memory 0x10000 =
     Some \<lparr>cmdline = 0x10010, loader_name = 0, mem_lower = 640, mem_upper = 130048\<rparr>"
proof -
  note a = example_boot_tag_lists(1) and b = example_boot_tag_lists(2)
  have c: "tags_of example_boot_tags_stripped =
      tags_of (without_module_bootdev example_boot_tags)"
    by (simp add: tags_of_def without_module_bootdev_def is_module_or_bootdev_def
        example_boot_tags_def example_boot_tags_stripped_def example_tags_defs)
  have s: "string_tags example_boot_tags_stripped = string_tags example_boot_tags"
    by (simp add: string_tags_def is_string_tag_def
        example_boot_tags_def example_boot_tags_stripped_def example_tags_defs)
  have v: "read_boot_tags example_boot_memory 0x10000 =
      Some \<lparr>cmdline = 0x10010, loader_name = 0, mem_lower = 640, mem_upper = 130048\<rparr>"
    using read_boot_tags_tag_list [OF a]
    by (simp add: zero_boot_info_def switch_tag_def example_boot_tags_def example_tags_defs)
  from module_bootdev_ignored [OF a b c] s
  have "read_boot_tags example_boot_memory_stripped 0x10000 =
      read_boot_tags example_boot_memory 0x10000"
    by auto
  with a b c s v show ?thesis by blast
qed

text \<open>
  C9, as stated: when the tag sequence is terminated by an \<open>END\<close> tag and every tag that
  is not \<open>END\<close> has a size field of at least 1, \<open>read_boot_tags\<close> terminates, each
  iteration advancing by the size rounded up to a multiple of 8, which is positive. It
  fails for a command-line tag with the size field \<open>0xFFFFFFFF\<close> followed by the
  \<open>END\<close> tag: the size is at least 1, but \<open>(size + 7) & ~7\<close> is 0 in 32 bits, the
  pointer does not advance and the loop never returns.
\<close>

theorem size_criterion_counterexample:
  "stored_tags (example_stuck_memory 0xFFFFFFFF) (0x10000 + 8)
     (example_stuck_tags 0xFFFFFFFF) \<and>
   tags_of (example_stuck_tags 0xFFFFFFFF) = [example_stuck_tag 0xFFFFFFFF, example_end] \<and>
   1 \<le> tag_size (example_stuck_tag 0xFFFFFFFF) \<and>
   next_tag (example_stuck_memory 0xFFFFFFFF) 0x10008 = 0x10008 \<and>
   read_boot_tags (example_stuck_memory 0xFFFFFFFF) 0x10000 = None"
  by (simp add: size_near_wrap_never)
     (simp add: example_stuck_memory_def example_stuck_tags_def tags_of_def next_tag_def
        example_tags_defs)

text \<open>
  C9, amended: for every input tag sequence that is stored at increasing addresses from
  \<open>ptr + 8\<close>, is terminated by an \<open>END\<close> tag, and in which the size field of every tag
  that is not \<open>END\<close>, rounded up to a multiple of 8, is the distance to the next tag,
  \<open>read_boot_tags\<close> terminates. Every such size is between 1 and \<open>0xFFFFFFF8\<close>, and
  each iteration advances the tag pointer by the size rounded up to a multiple of 8, which
  is positive and does not wrap.
\<close>

theorem read_boot_tags_terminates:
  assumes "stored_tags m (ptr + 8) ts"
      and "sizes_fit ts"
  shows "(\<exists>data. read_boot_tags m ptr = Some data) \<and>
         (\<forall>(a, t) \<in> set ts. tag_type t \<noteq> MULTIBOOT_TAG_TYPE_END \<longrightarrow>
            1 \<le> tag_size t \<and> tag_size t \<le> 0xFFFFFFF8 \<and>
            unat (next_tag m a) = unat a + round_up_8 (unat (tag_size t)) \<and>
            0 < round_up_8 (unat (tag_size t)))"
proof -
  have "\<exists>data. read_boot_tags m ptr = Some data"
    using assms by (simp add: read_boot_tags_def read_loop_tag_list)
  moreover have "1 \<le> tag_size t \<and> tag_size t \<le> 0xFFFFFFF8 \<and>
      unat (next_tag m a) = unat a + round_up_8 (unat (tag_size t)) \<and>
      0 < round_up_8 (unat (tag_size t))"
    if "(a, t) \<in> set ts" "tag_type t \<noteq> MULTIBOOT_TAG_TYPE_END" for a t
  proof -
    from fitting_tag_advance [OF assms that]
    have f: "1 \<le> unat (tag_size t)" "unat (tag_size t) \<le> 4294967288"
      "unat (next_tag m a) = unat a + round_up_8 (unat (tag_size t))"
      by simp_all
    from f(1) have "0 < round_up_8 (unat (tag_size t))"
      by (simp add: round_up_8_def)
    moreover from f(1,2) have "1 \<le> tag_size t" "tag_size t \<le> 0xFFFFFFF8"
      by (simp_all add: word_le_nat_alt)
    ultimately show ?thesis using f(3) by simp
  qed
  ultimately show ?thesis by auto
qed

theorem read_boot_tags_terminates_witness:
  "stored_tags example_boot_memory (0x10000 + 8) example_boot_tags \<and>
   sizes_fit example_boot_tags \<and>
   (\<exists>data. read_boot_tags example_boot_memory 0x10000 = Some data) \<and>
   (0x10008, example_cmdline) \<in> set example_boot_tags \<and>
   tag_size example_cmdline = 12 \<and>
   unat (next_tag example_boot_memory 0x10008) = 0x10018"
proof -
  have a: "stored_tags example_boot_memory (0x10000 + 8) example_boot_tags"
    and b: "sizes_fit example_boot_tags"
    using example_boot_tag_lists(1) by (simp_all add: tag_list_def)
  have c: "(0x10008, example_cmdline) \<in> set example_boot_tags"
    "tag_type example_cmdline \<noteq> MULTIBOOT_TAG_TYPE_END" "tag_size example_cmdline = 12"
    by (simp_all add: example_boot_tags_def example_tags_defs)
  from read_boot_tags_terminates [OF a b] c
  have "(\<exists>data. read_boot_tags example_boot_memory 0x10000 = Some data)"
    and "unat (next_tag example_boot_memory 0x10008) =
      unat (0x10008 :: 32 word) + round_up_8 (unat (tag_size example_cmdline))"
    by auto
  then have "(\<exists>data. read_boot_tags example_boot_memory 0x10000 = Some data)"
    and "unat (next_tag example_boot_memory 0x10008) = 0x10018"
    by (simp_all add: c(3) round_up_8_def)
  with a b c show ?thesis by blast
qed

section \<open>Arithmetic of the alignment macros\<close>

lemma unat_ALIGN_DOWN:
  "unat (ALIGN_DOWN p (2 ^ k)) = (unat p div 2 ^ k) * 2 ^ k"
  by (simp only: ALIGN_DOWN_def and_not_mask_push_drop unat_push_drop flip: mask_eq_decr_exp)

lemma IS_ALIGNED_dvd:
  "IS_ALIGNED p (2 ^ k) \<longleftrightarrow> 2 ^ k dvd unat p"
proof -
  have "IS_ALIGNED p (2 ^ k) \<longleftrightarrow> take_bit k p = 0"
    by (simp only: IS_ALIGNED_def take_bit_eq_mask flip: mask_eq_decr_exp)
  also have "\<dots> \<longleftrightarrow> unat (take_bit k p) = 0"
    by (simp only: unat_eq_0)
  also have "\<dots> \<longleftrightarrow> unat p mod 2 ^ k = 0"
    by (metis take_bit_eq_mod unsigned_take_bit_eq)
  also have "\<dots> \<longleftrightarrow> 2 ^ k dvd unat p"
    by (simp add: mod_eq_0_iff_dvd)
  finally show ?thesis .
qed

lemma ALIGN_DOWN_aligned:
  assumes "IS_ALIGNED p (2 ^ k)"
  shows "ALIGN_DOWN p (2 ^ k) = p"
proof (rule unsigned_word_eqI [where ?'a = nat])
  from assms have "2 ^ k dvd unat p"
    by (simp only: IS_ALIGNED_dvd)
  then show "unat (ALIGN_DOWN p (2 ^ k)) = unat p"
    by (simp add: unat_ALIGN_DOWN)
qed

section \<open>Claim about the alignment macros\<close>

text \<open>
  C10, as stated: for every address \<open>p\<close> and every power of two \<open>n\<close>, \<open>ALIGN(p, n)\<close> is
  the least multiple of \<open>n\<close> that is greater than or equal to \<open>p\<close>. It fails at the top
  of the address space: \<open>ALIGN(0xFFFFFFFF, 2)\<close> is \<open>0xFFFFFFFE + 2\<close>, which wraps to 0.
\<close>

theorem ALIGN_wraps_counterexample:
  "\<not> least_multiple_geq (unat (2::32 word)) (unat (0xFFFFFFFF::32 word))
       (unat (ALIGN 0xFFFFFFFF 2))"
  by (simp add: least_multiple_geq_def ALIGN_def ALIGN_UP_def ALIGN_DOWN_def IS_ALIGNED_def)

text \<open>
  C10, amended: for every address \<open>p\<close> and every power of two \<open>n = 2 ^ k\<close> with
  \<open>k < 32\<close> such that some multiple \<open>m\<close> of \<open>n\<close> with \<open>p \<le> m\<close> is below \<open>2 ^ 32\<close>,
  \<open>ALIGN(p, n)\<close> is the least multiple of \<open>n\<close> that is greater than or equal to \<open>p\<close>;
  when \<open>p\<close> is \<open>n\<close>-aligned, \<open>ALIGN(p, n)\<close> is \<open>p\<close> and \<open>ALIGN_UP(p, n)\<close> is
  \<open>p + n\<close>.
\<close>

theorem ALIGN_least_multiple:
  assumes "k < 32" and "2 ^ k dvd m" and "unat p \<le> m" and "m < 2 ^ 32"
  shows "least_multiple_geq (unat ((2::32 word) ^ k)) (unat p) (unat (ALIGN p (2 ^ k))) \<and>
         (IS_ALIGNED p (2 ^ k) \<longrightarrow> ALIGN p (2 ^ k) = p \<and> ALIGN_UP p (2 ^ k) = p + 2 ^ k)"
proof (cases "IS_ALIGNED p (2 ^ k)")
  case True
  then have "2 ^ k dvd unat p"
    by (simp add: IS_ALIGNED_dvd)
  with True show ?thesis
    using assms(1)
    by (simp add: ALIGN_def ALIGN_UP_def ALIGN_DOWN_aligned least_multiple_geq_def unat_pow2)
next
  case False
  then have nd: "\<not> 2 ^ k dvd unat p"
    by (simp add: IS_ALIGNED_dvd)
  define d where "d = (unat p div 2 ^ k) * 2 ^ k"
  have pos: "(0::nat) < 2 ^ k" by simp
  have d_le: "d \<le> unat p" by (simp add: d_def)
  have dvd_d: "(2::nat) ^ k dvd d" by (simp add: d_def)
  have d_ne: "d \<noteq> unat p" using nd dvd_d by auto
  have p_lt: "unat p < d + 2 ^ k"
    unfolding d_def using pos
    by (metis add.commute div_mult_mod_eq mod_less_divisor nat_add_left_cancel_less
        mult.commute)
  have least: "d + 2 ^ k \<le> m'" if "2 ^ k dvd m'" "unat p \<le> m'" for m'
  proof -
    from that(1) obtain q where q: "m' = 2 ^ k * q" ..
    have "unat p div 2 ^ k < q"
    proof (rule ccontr)
      assume "\<not> unat p div 2 ^ k < q"
      then have "q \<le> unat p div 2 ^ k" by simp
      then have "2 ^ k * q \<le> d" by (simp add: d_def mult.commute)
      with q that(2) d_le d_ne show False by simp
    qed
    then have "Suc (unat p div 2 ^ k) \<le> q" by simp
    then have "2 ^ k * Suc (unat p div 2 ^ k) \<le> 2 ^ k * q" by (rule mult_le_mono2)
    then show ?thesis by (simp add: q d_def mult.commute)
  qed
  have "d + 2 ^ k \<le> m" using least assms(2,3) by simp
  with assms(4) have no_wrap: "d + 2 ^ k < 2 ^ 32" by simp
  have "unat (ALIGN_DOWN p (2 ^ k)) + unat ((2::32 word) ^ k) < 2 ^ LENGTH(32)"
    using no_wrap assms(1) by (simp add: unat_ALIGN_DOWN unat_pow2 d_def)
  then have "unat (ALIGN_DOWN p (2 ^ k) + 2 ^ k) =
      unat (ALIGN_DOWN p (2 ^ k)) + unat ((2::32 word) ^ k)"
    by (simp only: unat_add_lem)
  then have u: "unat (ALIGN p (2 ^ k)) = d + 2 ^ k"
    using False assms(1) by (simp add: ALIGN_def ALIGN_UP_def unat_ALIGN_DOWN unat_pow2 d_def)
  show ?thesis
    using False u dvd_d p_lt least assms(1)
    by (simp add: least_multiple_geq_def unat_pow2)
qed

theorem ALIGN_least_multiple_witness:
  "(2::nat) < 32 \<and> (2::nat) ^ 2 dvd 8 \<and> unat (5::32 word) \<le> 8 \<and> (8::nat) < 2 ^ 32 \<and>
   ALIGN 5 (2 ^ 2) = 8 \<and> least_multiple_geq 4 5 8 \<and>
   IS_ALIGNED 8 (2 ^ 2) \<and> ALIGN 8 (2 ^ 2) = 8 \<and> ALIGN_UP 8 (2 ^ 2) = 12"
proof -
  have e: "ALIGN 5 (2 ^ 2) = 8" "IS_ALIGNED 8 (2 ^ 2)"
    by (simp_all add: ALIGN_def ALIGN_UP_def ALIGN_DOWN_def IS_ALIGNED_def)
  have h: "(2::nat) < 32" "(2::nat) ^ 2 dvd 8" "unat (5::32 word) \<le> 8" "(8::nat) < 2 ^ 32"
          "unat (8::32 word) \<le> 8"
    by simp_all
  from ALIGN_least_multiple [OF h(1) h(2) h(3) h(4)] e
  have "least_multiple_geq 4 5 8" by simp
  moreover from ALIGN_least_multiple [OF h(1) h(2) h(5) h(4)] e
  have "ALIGN 8 (2 ^ 2) = 8 \<and> ALIGN_UP 8 (2 ^ 2) = 12" by simp
  ultimately show ?thesis using e h by simp
qed

end
